theory Spec2Isabelle
  imports Main
begin

section \<open>Python values: exceptions, dictionaries, strings\<close>

text \<open>
  The script \<^verbatim>\<open>final_script.py\<close> is a linear batch job of three stages
  (\<^verbatim>\<open>fetch_jira_issues\<close>, \<^verbatim>\<open>upload_csv_to_azure\<close>,
  \<^verbatim>\<open>send_message_to_queue\<close>) sequenced by \<^verbatim>\<open>process_issues\<close>.
  Each stage wraps its whole body in \<^verbatim>\<open>try: ... except Exception\<close>, so an
  exception is a value here: \<open>Inl e\<close> of a sum type, turned into the stage's
  error response by the stage's wrapper.
\<close>

datatype py_exn =
    KeyError string
  | AttributeError string
  | TypeError string
  | ValueError string
  | OverflowError string
  | SdkError string

text \<open>\<^verbatim>\<open>str(e)\<close>: a \<^verbatim>\<open>KeyError\<close> prints the repr of the key, the others their message.\<close>

fun exn_str :: "py_exn \<Rightarrow> string" where
  "exn_str (KeyError k) = [CHR 0x27] @ k @ [CHR 0x27]"
| "exn_str (AttributeError m) = m"
| "exn_str (TypeError m) = m"
| "exn_str (ValueError m) = m"
| "exn_str (OverflowError m) = m"
| "exn_str (SdkError m) = m"

text \<open>The three credential dictionaries; \<^verbatim>\<open>d[k]\<close> raises \<^verbatim>\<open>KeyError\<close> on a missing key.\<close>

type_synonym py_dict = "string \<rightharpoonup> string"

definition getitem :: "py_dict \<Rightarrow> string \<Rightarrow> py_exn + string" where
  "getitem d k = (case d k of None \<Rightarrow> Inl (KeyError k) | Some v \<Rightarrow> Inr v)"

text \<open>Sequencing of statements that may raise: the first exception leaves the \<^verbatim>\<open>try\<close> body.\<close>

definition bindE :: "py_exn + 'a \<Rightarrow> ('a \<Rightarrow> py_exn + 'b) \<Rightarrow> py_exn + 'b" where
  "bindE m f = (case m of Inl e \<Rightarrow> Inl e | Inr x \<Rightarrow> f x)"

text \<open>
  \<^verbatim>\<open>str.lower()\<close>, on the ASCII letters. Python also lowers letters beyond ASCII, but
  to letters beyond ASCII again, except for the Kelvin sign (to \<open>k\<close>); the only use of
  \<open>lower\<close> is the comparison with \<open>done\<close>, which those characters cannot affect.
\<close>

definition lower_char :: "char \<Rightarrow> char" where
  "lower_char c =
     (case map_of (zip ''ABCDEFGHIJKLMNOPQRSTUVWXYZ'' ''abcdefghijklmnopqrstuvwxyz'') c of
        None \<Rightarrow> c | Some d \<Rightarrow> d)"

definition lower :: "string \<Rightarrow> string" where
  "lower s = map lower_char s"

text \<open>\<^verbatim>\<open>needle in hay\<close> on strings.\<close>

fun contains :: "string \<Rightarrow> string \<Rightarrow> bool" where
  "contains needle [] = (needle = [])"
| "contains needle (c # cs) = (take (length needle) (c # cs) = needle \<or> contains needle cs)"

text \<open>\<^verbatim>\<open>str(n)\<close> of a Python integer: decimal digits, a minus sign when negative.\<close>

definition digit_char :: "nat \<Rightarrow> char" where
  "digit_char d = ''0123456789'' ! d"

fun str_nat :: "nat \<Rightarrow> string" where
  "str_nat n = (if n < 10 then [digit_char n] else str_nat (n div 10) @ [digit_char (n mod 10)])"

definition str_int :: "int \<Rightarrow> string" where
  "str_int i = (if i < 0 then CHR ''-'' # str_nat (nat (- i)) else str_nat (nat i))"

section \<open>Tracker data, as the extractor reads it\<close>

text \<open>
  The attributes of the \<^verbatim>\<open>jira\<close> library's objects that the script reads. An attribute
  the tracker may leave out or null is an \<open>option\<close>: the new value of a change
  (\<^verbatim>\<open>item.toString\<close>), the author of a history entry (\<^verbatim>\<open>history.author\<close>, read
  only for its \<^verbatim>\<open>displayName\<close>), the summary and the description of a ticket.
\<close>

record change_item =
  field :: string
  toString :: "string option"

record history =
  author_displayName :: "string option"
  created :: string
  items :: "change_item list"

record comment =
  body :: string

record issue =
  fields_summary :: "string option"
  fields_description :: "string option"
  fields_comment_comments :: "comment list"
  changelog_histories :: "history list"

text \<open>The dictionary \<^verbatim>\<open>issue_data\<close> (lines 121-131): seven fixed keys, all strings.\<close>

record issue_data =
  channel_id :: string
  title :: string
  original_summary :: string
  description :: string
  entries :: string
  resolved_by :: string
  resolved_timestamp :: string

text \<open>
  What a stage returns beside its status code: the list of records, an
  \<^verbatim>\<open>{"error": msg}\<close> dictionary, or \<^verbatim>\<open>{"success": True, "base_folder": f}\<close>.
\<close>

datatype payload =
    IssuesData "issue_data list"
  | ErrorDict string
  | SuccessDict string

type_synonym response = "payload \<times> int"

text \<open>The queue message (lines 187-196).\<close>

record message =
  interaction_types :: "string list"
  channels :: "string list"
  org_id :: string
  request_id :: string
  request_mode :: "string list"
  requested_features :: "string list"
  start_date :: string
  end_date :: string

section \<open>The collaborators outside the script\<close>

text \<open>
  The clock, the tracker, the date library, the blob service and the queue service are
  not code of the script. Their answers are the fields of an environment:
  \<^item> \<open>now_epoch\<close>: \<^verbatim>\<open>int(datetime.now().timestamp())\<close> at line 172;
  \<^item> \<open>lookback_date\<close>: \<^verbatim>\<open>(datetime.now() - timedelta(days=total_days)).strftime('%Y-%m-%d')\<close>
    at lines 71-75, the extractor's own reading of the clock;
  \<^item> \<open>jira_connect\<close>: the exception of \<^verbatim>\<open>JIRA(server=..., basic_auth=...)\<close>, if any;
  \<^item> \<open>jira_search\<close>: \<^verbatim>\<open>jira.search_issues(jql_str, maxResults, expand="changelog")\<close>;
  \<^item> \<open>strptime_epoch\<close>: \<^verbatim>\<open>int(datetime.strptime(s, "%Y-%m-%dT%H:%M:%S.%f%z").timestamp())\<close>,
    \<open>None\<close> when the string does not match the format (\<^verbatim>\<open>ValueError\<close>);
  \<^item> \<open>blob_client\<close>: the exception of building the credential and the blob client
    (lines 21-30), if any; \<open>blob_transport\<close>: the exception of the upload call other
    than the blob existing (permission, network), if any;
  \<^item> \<open>queue_client\<close>, \<open>queue_transport\<close>: the same for the queue (lines 146-152);
  \<^item> \<open>json_dumps\<close>: \<^verbatim>\<open>json.dumps(message)\<close>.
\<close>

record env =
  now_epoch :: int
  lookback_date :: "int \<Rightarrow> py_exn + string"
  jira_connect :: "string \<Rightarrow> string \<Rightarrow> string \<Rightarrow> py_exn option"
  jira_search :: "string \<Rightarrow> int \<Rightarrow> py_exn + issue list"
  strptime_epoch :: "string \<Rightarrow> int option"
  blob_client :: "string \<Rightarrow> string \<Rightarrow> string \<Rightarrow> string \<Rightarrow> py_exn option"
  blob_transport :: "string \<Rightarrow> string \<Rightarrow> py_exn option"
  queue_client :: "string \<Rightarrow> string \<Rightarrow> string \<Rightarrow> string \<Rightarrow> py_exn option"
  queue_transport :: "string \<Rightarrow> string \<Rightarrow> py_exn option"
  json_dumps :: "message \<Rightarrow> string"

section \<open>Extractor: \<^verbatim>\<open>fetch_jira_issues\<close>\<close>

text \<open>Lines 89-96: the loop over \<^verbatim>\<open>enumerate(comments, start=1)\<close>, appending to the string.\<close>

fun concat_comments :: "nat \<Rightarrow> comment list \<Rightarrow> string \<Rightarrow> string" where
  "concat_comments i [] acc = acc"
| "concat_comments i (c # cs) acc =
     concat_comments (Suc i) cs (acc @ ''# Entry '' @ str_nat i @ '': '' @ body c @ [CHR 0x0A])"

definition concatenated_comments :: "comment list \<Rightarrow> string" where
  "concatenated_comments cs = (if length cs > 0 then concat_comments 1 cs '''' else '''')"

text \<open>
  Lines 98-110. The loop state is \<open>(resolved_by, resolved_timestamp, is_status_found)\<close>.
  The inner loop leaves at the first item whose field is \<open>status\<close> (\<^verbatim>\<open>break\<close>, line 108);
  the outer loop leaves once the flag is set (line 110).
\<close>

type_synonym scan_state = "string \<times> string \<times> bool"

fun scan_items :: "history \<Rightarrow> change_item list \<Rightarrow> scan_state \<Rightarrow> py_exn + scan_state" where
  "scan_items h [] s = Inr s"
| "scan_items h (it # its) (rb, rt, found) =
     (if field it = ''status'' then
        (case toString it of
           None \<Rightarrow> Inl (AttributeError ''lower'')
         | Some t \<Rightarrow>
             if lower t = ''done'' then
               (case author_displayName h of
                  None \<Rightarrow> Inl (AttributeError ''author'')
                | Some a \<Rightarrow> Inr (a, created h, True))
             else Inr (rb, rt, True))
      else scan_items h its (rb, rt, found))"

fun scan_histories :: "history list \<Rightarrow> scan_state \<Rightarrow> py_exn + scan_state" where
  "scan_histories [] s = Inr s"
| "scan_histories (h # hs) s =
     (case scan_items h (items h) s of
        Inl e \<Rightarrow> Inl e
      | Inr (rb, rt, found) \<Rightarrow>
          if found then Inr (rb, rt, found) else scan_histories hs (rb, rt, found))"

text \<open>Lines 112-119: the conversion, only of a non-empty \<^verbatim>\<open>resolved_timestamp\<close>.\<close>

definition convert_timestamp :: "env \<Rightarrow> string \<Rightarrow> py_exn + string" where
  "convert_timestamp ev rt =
     (if rt \<noteq> '''' then
        (case strptime_epoch ev rt of
           None \<Rightarrow> Inl (ValueError ''time data does not match format'')
         | Some n \<Rightarrow> Inr (str_int n))
      else Inr rt)"

text \<open>Lines 89-131: the body of the loop over the tickets, one record per ticket.\<close>

definition truthy_or_empty :: "string option \<Rightarrow> string" where
  "truthy_or_empty v = (case v of None \<Rightarrow> '''' | Some s \<Rightarrow> s)"

definition issue_record :: "env \<Rightarrow> issue \<Rightarrow> py_exn + issue_data" where
  "issue_record ev i =
     bindE (scan_histories (changelog_histories i) ('''', '''', False)) (\<lambda>(rb, rt, found).
     bindE (convert_timestamp ev rt) (\<lambda>rt'.
       Inr \<lparr> channel_id = ''jira'',
             title = truthy_or_empty (fields_summary i),
             original_summary = '''',
             description = truthy_or_empty (fields_description i),
             entries = concatenated_comments (fields_comment_comments i),
             resolved_by = rb,
             resolved_timestamp = rt' \<rparr>))"

text \<open>Lines 85-132: \<^verbatim>\<open>issues_data.append(issue_data)\<close> for each ticket, in order.\<close>

fun collect_issues :: "env \<Rightarrow> issue list \<Rightarrow> issue_data list \<Rightarrow> py_exn + issue_data list" where
  "collect_issues ev [] issues_data = Inr issues_data"
| "collect_issues ev (i # is) issues_data =
     bindE (issue_record ev i) (\<lambda>d. collect_issues ev is (issues_data @ [d]))"

text \<open>Lines 65-80: credentials, connection, the query string and the bounded search.\<close>

definition search_tickets :: "env \<Rightarrow> py_dict \<Rightarrow> int \<Rightarrow> int \<Rightarrow> py_exn + issue list" where
  "search_tickets ev jira_auth total_days max_issues =
     bindE (getitem jira_auth ''jira_url'') (\<lambda>jira_url.
     bindE (getitem jira_auth ''username'') (\<lambda>jira_username.
     bindE (getitem jira_auth ''token'') (\<lambda>jira_token.
       case jira_connect ev jira_url jira_username jira_token of
         Some e \<Rightarrow> Inl e
       | None \<Rightarrow>
           bindE (lookback_date ev total_days) (\<lambda>d.
             jira_search ev (''created >= '' @ [CHR 0x27] @ d @ [CHR 0x27] @ '' ORDER BY created DESC'')
               (min max_issues 100)))))"

text \<open>Lines 64-134, the \<^verbatim>\<open>try\<close> body, and lines 135-136, the handler.\<close>

definition fetch_try :: "env \<Rightarrow> py_dict \<Rightarrow> int \<Rightarrow> int \<Rightarrow> py_exn + response" where
  "fetch_try ev jira_auth total_days max_issues =
     bindE (search_tickets ev jira_auth total_days max_issues) (\<lambda>issues.
       if length issues = 0 then Inr (ErrorDict ''No tickets found'', 404)
       else bindE (collect_issues ev issues []) (\<lambda>issues_data. Inr (IssuesData issues_data, 200)))"

definition fetch_jira_issues :: "env \<Rightarrow> py_dict \<Rightarrow> int \<Rightarrow> int \<Rightarrow> response" where
  "fetch_jira_issues ev jira_auth total_days max_issues =
     (case fetch_try ev jira_auth total_days max_issues of
        Inl e \<Rightarrow> (ErrorDict ''Unable to login to JIRA'', 401)
      | Inr r \<Rightarrow> r)"

section \<open>The world the job writes to\<close>

text \<open>
  What the run changes outside itself: the blobs of the storage account (by container and
  blob name), the messages the queues hold (by queue name), and the lines printed. The
  field \<open>calls\<close> records every write request that reached a service, in order, whether
  or not the service accepted it. One \<open>out_line\<close> stands for one \<^verbatim>\<open>print\<close> call,
  by the value it prints.
\<close>

datatype call =
    BlobUpload string string string bool
  | QueueSend string string

datatype out_line =
    PrintHeader
  | PrintJson payload
  | PrintMessageAdded message
  | PrintQueueError py_exn

record world =
  blobs :: "string \<times> string \<rightharpoonup> string"
  queue :: "(string \<times> string) list"
  stdout :: "out_line list"
  calls :: "call list"

text \<open>
  The blob service's \<^verbatim>\<open>upload_blob(data, overwrite=...)\<close>: with \<^verbatim>\<open>overwrite=False\<close>
  a blob that exists is an error of the service (\<^verbatim>\<open>ResourceExistsError\<close>) and stays
  as it is; otherwise the blob holds the data afterwards.
\<close>

definition upload_blob ::
  "env \<Rightarrow> string \<Rightarrow> string \<Rightarrow> string \<Rightarrow> bool \<Rightarrow> world \<Rightarrow> (py_exn + unit) \<times> world" where
  "upload_blob ev container_name blob_name content overwrite w =
     (let w1 = w\<lparr> calls := calls w @ [BlobUpload container_name blob_name content overwrite] \<rparr> in
      case blob_transport ev container_name blob_name of
        Some e \<Rightarrow> (Inl e, w1)
      | None \<Rightarrow>
          if blobs w (container_name, blob_name) \<noteq> None \<and> \<not> overwrite
          then (Inl (SdkError ''The specified blob already exists.''), w1)
          else (Inr (), w1\<lparr> blobs := (blobs w)((container_name, blob_name) \<mapsto> content) \<rparr>))"

text \<open>The queue service's \<^verbatim>\<open>send_message(body)\<close>: the queue holds the body afterwards.\<close>

definition send_message :: "env \<Rightarrow> string \<Rightarrow> string \<Rightarrow> world \<Rightarrow> (py_exn + unit) \<times> world" where
  "send_message ev queue_name content w =
     (let w1 = w\<lparr> calls := calls w @ [QueueSend queue_name content] \<rparr> in
      case queue_transport ev queue_name content of
        Some e \<Rightarrow> (Inl e, w1)
      | None \<Rightarrow> (Inr (), w1\<lparr> queue := queue w @ [(queue_name, content)] \<rparr>))"

section \<open>Archiver: \<^verbatim>\<open>upload_csv_to_azure\<close>\<close>

text \<open>
  \<^verbatim>\<open>csv.writer(csv_buffer)\<close> with the default dialect (\<open>excel\<close>): fields separated by
  a comma, a record ended by CR LF, and a field quoted only when it holds the delimiter,
  the quote character or a character of the line terminator (\<^verbatim>\<open>QUOTE_MINIMAL\<close>), its
  quote characters doubled. A record of one empty field is written as two quotes.
\<close>

definition csv_special :: "char \<Rightarrow> bool" where
  "csv_special c = (c = CHR '','' \<or> c = CHR 0x22 \<or> c = CHR 0x0D \<or> c = CHR 0x0A)"

definition csv_field :: "string \<Rightarrow> string" where
  "csv_field s =
     (if list_ex csv_special s
      then [CHR 0x22] @ concat (map (\<lambda>c. if c = CHR 0x22 then [c, c] else [c]) s) @ [CHR 0x22]
      else s)"

fun join_fields :: "string list \<Rightarrow> string" where
  "join_fields [] = ''''"
| "join_fields [f] = f"
| "join_fields (f # g # fs) = f @ '','' @ join_fields (g # fs)"

definition writerow :: "string list \<Rightarrow> string" where
  "writerow fs =
     (if fs = [''''] then [CHR 0x22, CHR 0x22] else join_fields (map csv_field fs))
     @ [CHR 0x0D, CHR 0x0A]"

text \<open>Lines 34-42, and \<^verbatim>\<open>[item[col] for col in columns]\<close> of line 46.\<close>

definition columns :: "string list" where
  "columns = [''channel_id'', ''title'', ''original_summary'', ''description'', ''entries'',
              ''resolved_by'', ''resolved_timestamp'']"

definition item_columns :: "issue_data \<Rightarrow> string list" where
  "item_columns item = [channel_id item, title item, original_summary item, description item,
                        entries item, resolved_by item, resolved_timestamp item]"

text \<open>
  Lines 32-48. \<^verbatim>\<open>csv_data\<close> is what the extractor returned; iterating over a
  dictionary instead of a list of records gives its keys, and \<^verbatim>\<open>item[col]\<close> on a string
  key raises \<^verbatim>\<open>TypeError\<close>.
\<close>

definition csv_content :: "payload \<Rightarrow> py_exn + string" where
  "csv_content csv_data =
     (case csv_data of
        IssuesData rows \<Rightarrow> Inr (writerow columns @ concat (map (\<lambda>item. writerow (item_columns item)) rows))
      | ErrorDict m \<Rightarrow> Inl (TypeError ''string indices must be integers'')
      | SuccessDict f \<Rightarrow> Inl (TypeError ''string indices must be integers''))"

text \<open>Lines 27-28.\<close>

definition base_folder_of :: "string \<Rightarrow> string" where
  "base_folder_of business_id = business_id @ ''/interactions/incidents/jira''"

definition blob_name_of :: "string \<Rightarrow> string \<Rightarrow> string \<Rightarrow> string" where
  "blob_name_of business_id agent_id timestamp =
     base_folder_of business_id @ ''/request-'' @ business_id @ ''-'' @ agent_id @ ''-'' @ timestamp @ ''.csv''"

text \<open>Lines 15-51, the \<^verbatim>\<open>try\<close> body, with the world it leaves.\<close>

definition upload_try ::
  "env \<Rightarrow> py_dict \<Rightarrow> string \<Rightarrow> payload \<Rightarrow> string \<Rightarrow> string \<Rightarrow> world \<Rightarrow> (py_exn + response) \<times> world" where
  "upload_try ev azure_auth business_id csv_data timestamp agent_id w =
     (case getitem azure_auth ''account_url'' of Inl e \<Rightarrow> (Inl e, w) | Inr account_url \<Rightarrow>
     (case getitem azure_auth ''account_name'' of Inl e \<Rightarrow> (Inl e, w) | Inr storage_account_name \<Rightarrow>
     (case getitem azure_auth ''account_key'' of Inl e \<Rightarrow> (Inl e, w) | Inr account_key \<Rightarrow>
     (case getitem azure_auth ''container_name'' of Inl e \<Rightarrow> (Inl e, w) | Inr container_name \<Rightarrow>
     (case blob_client ev account_url storage_account_name account_key container_name of
        Some e \<Rightarrow> (Inl e, w)
      | None \<Rightarrow>
     (case csv_content csv_data of Inl e \<Rightarrow> (Inl e, w) | Inr content \<Rightarrow>
     (case upload_blob ev container_name (blob_name_of business_id agent_id timestamp) content False w of
        (Inl e, w') \<Rightarrow> (Inl e, w')
      | (Inr u, w') \<Rightarrow> (Inr (SuccessDict (base_folder_of business_id), 200), w'))))))))"

text \<open>Lines 53-60, the handler.\<close>

definition upload_csv_to_azure ::
  "env \<Rightarrow> py_dict \<Rightarrow> string \<Rightarrow> payload \<Rightarrow> string \<Rightarrow> string \<Rightarrow> world \<Rightarrow> response \<times> world" where
  "upload_csv_to_azure ev azure_auth business_id csv_data timestamp agent_id w =
     (case upload_try ev azure_auth business_id csv_data timestamp agent_id w of
        (Inr r, w') \<Rightarrow> (r, w')
      | (Inl e, w') \<Rightarrow>
          ((ErrorDict (if contains ''Authentication'' (exn_str e)
                       then ''Azure permissions issue''
                       else ''New file cannot be created in Azure''), 500), w'))"

section \<open>Notifier: \<^verbatim>\<open>send_message_to_queue\<close>\<close>

text \<open>Lines 140-153, the \<^verbatim>\<open>try\<close> body, and lines 155-156, the handler. Nothing is returned.\<close>

definition send_try :: "env \<Rightarrow> py_dict \<Rightarrow> message \<Rightarrow> world \<Rightarrow> (py_exn + unit) \<times> world" where
  "send_try ev queue_auth msg w =
     (case getitem queue_auth ''account_url'' of Inl e \<Rightarrow> (Inl e, w) | Inr account_url \<Rightarrow>
     (case getitem queue_auth ''account_name'' of Inl e \<Rightarrow> (Inl e, w) | Inr account_name \<Rightarrow>
     (case getitem queue_auth ''account_key'' of Inl e \<Rightarrow> (Inl e, w) | Inr account_key \<Rightarrow>
     (case getitem queue_auth ''queue_name'' of Inl e \<Rightarrow> (Inl e, w) | Inr queue_name \<Rightarrow>
     (case queue_client ev account_url account_name account_key queue_name of
        Some e \<Rightarrow> (Inl e, w)
      | None \<Rightarrow>
     (case send_message ev queue_name (json_dumps ev msg) w of
        (Inl e, w') \<Rightarrow> (Inl e, w')
      | (Inr u, w') \<Rightarrow> (Inr (), w'\<lparr> stdout := stdout w' @ [PrintMessageAdded msg] \<rparr>)))))))"

definition send_message_to_queue :: "env \<Rightarrow> py_dict \<Rightarrow> message \<Rightarrow> world \<Rightarrow> world" where
  "send_message_to_queue ev queue_auth msg w =
     (case send_try ev queue_auth msg w of
        (Inr u, w') \<Rightarrow> w'
      | (Inl e, w') \<Rightarrow> w'\<lparr> stdout := stdout w' @ [PrintQueueError e] \<rparr>)"

section \<open>Orchestrator: \<^verbatim>\<open>process_issues\<close>\<close>

text \<open>Lines 187-196.\<close>

definition queue_message :: "string \<Rightarrow> string \<Rightarrow> string \<Rightarrow> int \<Rightarrow> int \<Rightarrow> message" where
  "queue_message business_id agent_id timestamp start_date_v end_date_v =
     \<lparr> interaction_types = [''incidents''],
       channels = [''jira''],
       org_id = business_id,
       request_id = agent_id @ ''-'' @ timestamp,
       request_mode = [''historical''],
       requested_features = [''topic-classification''],
       start_date = str_int start_date_v,
       end_date = str_int end_date_v \<rparr>"

text \<open>Lines 170-198.\<close>

definition process_issues ::
  "env \<Rightarrow> py_dict \<Rightarrow> py_dict \<Rightarrow> py_dict \<Rightarrow> int \<Rightarrow> int \<Rightarrow> string \<Rightarrow> string \<Rightarrow> string \<Rightarrow> world
     \<Rightarrow> response \<times> world" where
  "process_issues ev jira_auth azure_auth queue_auth total_days max_issues business_id timestamp agent_id w =
     (let seconds_in_a_day = 86400;
          total_days_seconds = total_days * seconds_in_a_day;
          end_date_v = now_epoch ev;
          start_date_v = end_date_v - total_days_seconds;
          (jira_issues, status_code) = fetch_jira_issues ev jira_auth total_days max_issues;
          w1 = w\<lparr> stdout := stdout w @ [PrintHeader, PrintJson jira_issues] \<rparr>
      in
        if status_code \<noteq> 200 then ((jira_issues, status_code), w1)
        else
          (case upload_csv_to_azure ev azure_auth business_id jira_issues timestamp agent_id w1 of
             ((response_v, status_code'), w2) \<Rightarrow>
               if status_code' = 200
               then ((response_v, status_code'),
                     send_message_to_queue ev queue_auth
                       (queue_message business_id agent_id timestamp start_date_v end_date_v) w2)
               else ((response_v, status_code'), w2)))"

section \<open>The specification's rendering of the comments\<close>

text \<open>
  The data model of the specification describes \<open>entries\<close> in words: every comment
  prefixed with a 1-based label \<open>Entry N:\<close>, the labelled comments joined by newlines,
  and the empty string for no comment. \<open>spec_entries\<close> is that description, to be
  compared with \<open>concatenated_comments\<close>, which is the code.
\<close>

fun join_lines :: "string list \<Rightarrow> string" where
  "join_lines [] = ''''"
| "join_lines [l] = l"
| "join_lines (l # m # ls) = l @ [CHR 0x0A] @ join_lines (m # ls)"

definition spec_entries :: "comment list \<Rightarrow> string" where
  "spec_entries cs =
     join_lines (map (\<lambda>(n, c). ''Entry '' @ str_nat n @ '': '' @ body c) (enumerate 1 cs))"

section \<open>The integer a decimal string denotes\<close>

text \<open>
  The reading of a decimal string, as \<^verbatim>\<open>int(s)\<close> reads the strings \<open>str_int\<close>
  writes: an optional minus sign and at least one digit. It is no code of the script; it
  says which integer a \<open>resolved_timestamp\<close> stands for.
\<close>

definition digit_value :: "char \<Rightarrow> nat option" where
  "digit_value c = map_of (zip ''0123456789'' [0, 1, 2, 3, 4, 5, 6, 7, 8, 9]) c"

fun digits_value :: "string \<Rightarrow> nat \<Rightarrow> nat option" where
  "digits_value [] acc = Some acc"
| "digits_value (c # cs) acc =
     (case digit_value c of None \<Rightarrow> None | Some d \<Rightarrow> digits_value cs (10 * acc + d))"

definition decimal_value :: "string \<Rightarrow> int option" where
  "decimal_value s =
     (case s of
        [] \<Rightarrow> None
      | c # cs \<Rightarrow>
          if c = CHR ''-''
          then (if cs = [] then None else map_option (\<lambda>n. - int n) (digits_value cs 0))
          else map_option int (digits_value (c # cs) 0))"

section \<open>Sample data\<close>

text \<open>
  A healthy environment over a given tracker content, three credential dictionaries, and
  four tickets: one resolved by Alice in its only status change; one moved to
  \<open>In Progress\<close> by Bob and to \<open>Done\<close> by Alice afterwards; one resolved by an author
  whose display name is empty; one resolved at a creation time the date library rejects.
\<close>

definition sample_env :: "issue list \<Rightarrow> env" where
  "sample_env tickets =
     \<lparr> now_epoch = 1705400000,
       lookback_date = (\<lambda>days. Inr ''2023-12-17''),
       jira_connect = (\<lambda>url user token. None),
       jira_search = (\<lambda>jql n. Inr (take (nat n) tickets)),
       strptime_epoch = (\<lambda>s. if s = ''2024-01-15T10:30:00.000+0000'' then Some 1705314600
                               else if s = ''2024-01-14T08:00:00.000+0000'' then Some 1705219200
                               else None),
       blob_client = (\<lambda>url account_name key container. None),
       blob_transport = (\<lambda>container name. None),
       queue_client = (\<lambda>url account_name key queue_name. None),
       queue_transport = (\<lambda>queue_name content. None),
       json_dumps = (\<lambda>m. request_id m @ '' '' @ start_date m @ '' '' @ end_date m) \<rparr>"

definition sample_jira_auth :: py_dict where
  "sample_jira_auth = [''jira_url'' \<mapsto> ''https://tracker.example'', ''username'' \<mapsto> ''bot'',
                       ''token'' \<mapsto> ''secret'']"

definition sample_azure_auth :: py_dict where
  "sample_azure_auth = [''account_url'' \<mapsto> ''https://store.example'', ''account_name'' \<mapsto> ''store'',
                        ''account_key'' \<mapsto> ''key'', ''container_name'' \<mapsto> ''exports'']"

definition sample_queue_auth :: py_dict where
  "sample_queue_auth = [''account_url'' \<mapsto> ''https://queue.example'', ''account_name'' \<mapsto> ''store'',
                        ''account_key'' \<mapsto> ''key'', ''queue_name'' \<mapsto> ''ready'']"

definition status_change :: "string \<Rightarrow> change_item" where
  "status_change v = \<lparr> field = ''status'', toString = Some v \<rparr>"

definition alice_ticket :: issue where
  "alice_ticket =
     \<lparr> fields_summary = Some ''Printer, broken'',
       fields_description = None,
       fields_comment_comments = [\<lparr> body = ''a'' \<rparr>, \<lparr> body = ''b'' \<rparr>],
       changelog_histories =
         [\<lparr> author_displayName = Some ''Alice'', created = ''2024-01-15T10:30:00.000+0000'',
            items = [\<lparr> field = ''assignee'', toString = None \<rparr>, status_change ''Done''] \<rparr>] \<rparr>"

definition reopened_ticket :: issue where
  "reopened_ticket =
     \<lparr> fields_summary = Some ''Login fails'',
       fields_description = Some ''since Monday'',
       fields_comment_comments = [],
       changelog_histories =
         [\<lparr> author_displayName = Some ''Bob'', created = ''2024-01-14T08:00:00.000+0000'',
            items = [status_change ''In Progress''] \<rparr>,
          \<lparr> author_displayName = Some ''Alice'', created = ''2024-01-15T10:30:00.000+0000'',
            items = [status_change ''Done''] \<rparr>] \<rparr>"


definition bad_time_ticket :: issue where
  "bad_time_ticket =
     \<lparr> fields_summary = Some ''Clock drift'',
       fields_description = None,
       fields_comment_comments = [],
       changelog_histories =
         [\<lparr> author_displayName = Some ''Carol'', created = ''2024-01-15 10:30'',
            items = [status_change ''DONE''] \<rparr>] \<rparr>"

definition empty_world :: world where
  "empty_world = \<lparr> blobs = Map.empty, queue = [], stdout = [], calls = [] \<rparr>"

text \<open>
  The CSV text of the records of the first two tickets, those records and the
  record of the third ticket, the blob name of the sample run, a world where that blob exists, and an environment whose queue is down.
\<close>

definition sample_csv :: string where
  "sample_csv =
     ''channel_id,title,original_summary,description,entries,resolved_by,resolved_timestamp''
       @ [CHR 0x0D, CHR 0x0A]
     @ ''jira,'' @ [CHR 0x22] @ ''Printer, broken'' @ [CHR 0x22] @ '',,,''
       @ [CHR 0x22] @ ''# Entry 1: a'' @ [CHR 0x0A] @ ''# Entry 2: b'' @ [CHR 0x0A] @ [CHR 0x22]
       @ '',Alice,1705314600'' @ [CHR 0x0D, CHR 0x0A]
     @ ''jira,Login fails,,since Monday,,,'' @ [CHR 0x0D, CHR 0x0A]"

definition alice_data :: issue_data where
  "alice_data =
     \<lparr> channel_id = ''jira'', title = ''Printer, broken'', original_summary = '''',
       description = '''', entries = ''# Entry 1: a'' @ [CHR 0x0A] @ ''# Entry 2: b'' @ [CHR 0x0A],
       resolved_by = ''Alice'', resolved_timestamp = ''1705314600'' \<rparr>"

definition reopened_data :: issue_data where
  "reopened_data =
     \<lparr> channel_id = ''jira'', title = ''Login fails'', original_summary = '''',
       description = ''since Monday'', entries = '''',
       resolved_by = '''', resolved_timestamp = '''' \<rparr>"


text \<open>A ticket resolved in an entry whose creation time is the empty string, and its record.\<close>

definition empty_time_ticket :: issue where
  "empty_time_ticket =
     \<lparr> fields_summary = Some ''No time'',
       fields_description = None,
       fields_comment_comments = [],
       changelog_histories =
         [\<lparr> author_displayName = Some ''Dave'', created = '''',
            items = [status_change ''Done''] \<rparr>] \<rparr>"

definition empty_time_data :: issue_data where
  "empty_time_data =
     \<lparr> channel_id = ''jira'', title = ''No time'', original_summary = '''',
       description = '''', entries = '''',
       resolved_by = ''Dave'', resolved_timestamp = '''' \<rparr>"

definition sample_blob_name :: string where
  "sample_blob_name = ''T/interactions/incidents/jira/request-T-A-123.csv''"

definition occupied_world :: world where
  "occupied_world = empty_world \<lparr> blobs := [(''exports'', sample_blob_name) \<mapsto> ''old''] \<rparr>"

definition queue_down_env :: "issue list \<Rightarrow> env" where
  "queue_down_env tickets =
     (sample_env tickets) \<lparr> queue_transport := \<lambda>queue_name content. Some (SdkError ''timed out'') \<rparr>"

section \<open>Facts about the extractor\<close>

text \<open>\<open>str_nat\<close> is unfolded by hand: its equation rewrites itself.\<close>

declare str_nat.simps [simp del]

lemma str_nat_nonempty: "str_nat n \<noteq> []"
  by (subst str_nat.simps) simp

lemma str_int_nonempty: "str_int i \<noteq> []"
  by (simp add: str_int_def str_nat_nonempty)

lemma digit_char_in_digits: "d < 10 \<Longrightarrow> digit_char d \<in> set ''0123456789''"
  unfolding digit_char_def by (rule nth_mem) simp

lemma str_nat_digits: "set (str_nat n) \<subseteq> set ''0123456789''"
proof (induction n rule: str_nat.induct)
  case (1 n)
  show ?case
  proof (cases "n < 10")
    case True
    then show ?thesis
      using digit_char_in_digits [of n] by (subst str_nat.simps) simp
  next
    case False
    have "n mod 10 < 10" by simp
    from digit_char_in_digits [OF this] "1.IH" [OF False] False show ?thesis
      by (subst str_nat.simps) simp
  qed
qed

lemma digit_value_digit_char: "d < 10 \<Longrightarrow> digit_value (digit_char d) = Some d"
proof -
  assume "d < 10"
  then have "d \<in> {0, 1, 2, 3, 4, 5, 6, 7, 8, 9}" by auto
  then show ?thesis
    by (elim insertE emptyE) (simp_all add: digit_value_def digit_char_def)
qed

lemma digits_value_append:
  "digits_value (xs @ ys) acc =
     (case digits_value xs acc of None \<Rightarrow> None | Some a \<Rightarrow> digits_value ys a)"
  by (induction xs arbitrary: acc) (simp_all split: option.splits)

lemma digits_value_str_nat: "digits_value (str_nat n) 0 = Some n"
proof (induction n rule: str_nat.induct)
  case (1 n)
  show ?case
  proof (cases "n < 10")
    case True
    then show ?thesis
      by (subst str_nat.simps) (simp add: digit_value_digit_char)
  next
    case False
    have "n mod 10 < 10" by simp
    from digit_value_digit_char [OF this] "1.IH" [OF False] False show ?thesis
      by (subst str_nat.simps) (simp add: digits_value_append)
  qed
qed

lemma str_nat_no_sign: "str_nat n = c # cs \<Longrightarrow> c \<noteq> CHR ''-''"
  using str_nat_digits [of n] by auto

lemma decimal_value_str_int: "decimal_value (str_int i) = Some i"
proof (cases "i < 0")
  case True
  then show ?thesis
    by (simp add: decimal_value_def str_int_def str_nat_nonempty digits_value_str_nat)
next
  case False
  obtain c cs where s: "str_nat (nat i) = c # cs"
    using str_nat_nonempty [of "nat i"] by (cases "str_nat (nat i)") auto
  from str_nat_no_sign [OF s] have "c \<noteq> CHR ''-''" .
  moreover from digits_value_str_nat [of "nat i"] s have "digits_value (c # cs) 0 = Some (nat i)"
    by simp
  ultimately show ?thesis using False s
    by (simp add: decimal_value_def str_int_def)
qed

lemma scan_items_no_status:
  "\<forall>it\<in>set its. field it \<noteq> ''status'' \<Longrightarrow> scan_items h its s = Inr s"
  by (induction h its s rule: scan_items.induct) auto

lemma scan_items_first_status:
  assumes "\<forall>it'\<in>set ipre. field it' \<noteq> ''status''" and "field it = ''status''"
  shows "scan_items h (ipre @ it # ipost) (rb, rt, found) =
     (case toString it of
        None \<Rightarrow> Inl (AttributeError ''lower'')
      | Some v \<Rightarrow>
          if lower v = ''done'' then
            (case author_displayName h of
               None \<Rightarrow> Inl (AttributeError ''author'')
             | Some a \<Rightarrow> Inr (a, created h, True))
          else Inr (rb, rt, True))"
  using assms by (induction ipre) auto

lemma scan_histories_no_status:
  "\<forall>h\<in>set hs. \<forall>it\<in>set (items h). field it \<noteq> ''status'' \<Longrightarrow>
   scan_histories hs (rb, rt, False) = Inr (rb, rt, False)"
  by (induction hs) (auto simp: scan_items_no_status)

lemma scan_histories_first_status:
  assumes "\<forall>h'\<in>set pre. \<forall>it'\<in>set (items h'). field it' \<noteq> ''status''"
    and "items h = ipre @ it # ipost"
    and "\<forall>it'\<in>set ipre. field it' \<noteq> ''status''"
    and "field it = ''status''"
  shows "scan_histories (pre @ h # post) (rb, rt, False) =
     (case toString it of
        None \<Rightarrow> Inl (AttributeError ''lower'')
      | Some v \<Rightarrow>
          if lower v = ''done'' then
            (case author_displayName h of
               None \<Rightarrow> Inl (AttributeError ''author'')
             | Some a \<Rightarrow> Inr (a, created h, True))
          else Inr (rb, rt, True))"
  using assms(1)
proof (induction pre)
  case Nil
  show ?case
    using scan_items_first_status [OF assms(3) assms(4), of h ipost rb rt False] assms(2)
    by (simp split: option.splits)
next
  case (Cons p pre)
  then show ?case by (simp add: scan_items_no_status)
qed



lemma issue_record_Inr:
  assumes "issue_record ev t = Inr r"
  shows "\<exists>rt f. scan_histories (changelog_histories t) ('''', '''', False) = Inr (resolved_by r, rt, f)
           \<and> convert_timestamp ev rt = Inr (resolved_timestamp r)
           \<and> entries r = concatenated_comments (fields_comment_comments t)"
  using assms
  by (auto simp: issue_record_def bindE_def split: sum.splits prod.splits)

lemma collect_issues_Inr:
  "collect_issues ev ts acc = Inr out \<Longrightarrow>
   \<exists>ds. out = acc @ ds \<and> list_all2 (\<lambda>t d. issue_record ev t = Inr d) ts ds"
proof (induction ts arbitrary: acc)
  case Nil
  then show ?case by simp
next
  case (Cons t ts)
  from Cons.prems obtain d where d: "issue_record ev t = Inr d"
    and rest: "collect_issues ev ts (acc @ [d]) = Inr out"
    by (auto simp: bindE_def split: sum.splits)
  from Cons.IH [OF rest] obtain ds where "out = (acc @ [d]) @ ds"
    and "list_all2 (\<lambda>t d. issue_record ev t = Inr d) ts ds" by blast
  with d show ?case by (intro exI [of _ "d # ds"]) simp
qed

lemma collect_issues_Inl:
  "t \<in> set ts \<Longrightarrow> issue_record ev t = Inl e \<Longrightarrow> \<exists>e'. collect_issues ev ts acc = Inl e'"
proof (induction ts arbitrary: acc)
  case Nil
  then show ?case by simp
next
  case (Cons a ts)
  then show ?case
    by (cases "issue_record ev a") (auto simp: bindE_def)
qed

lemma fetch_success:
  assumes "search_tickets ev jira_auth total_days max_issues = Inr issues"
    and "fetch_jira_issues ev jira_auth total_days max_issues = (IssuesData rs, st)"
  shows "st = 200 \<and> issues \<noteq> [] \<and> list_all2 (\<lambda>t d. issue_record ev t = Inr d) issues rs"
proof -
  from assms have ne: "issues \<noteq> []"
    by (auto simp: fetch_jira_issues_def fetch_try_def bindE_def)
  with assms obtain out where "collect_issues ev issues [] = Inr out" and "rs = out" and "st = 200"
    by (auto simp: fetch_jira_issues_def fetch_try_def bindE_def split: sum.splits)
  with collect_issues_Inr [of ev issues "[]" out] ne show ?thesis by simp
qed

section \<open>The sample run\<close>

lemma sample_search:
  "search_tickets (sample_env ts) sample_jira_auth 30 50 = Inr (take 50 ts)"
  by (simp add: search_tickets_def sample_env_def sample_jira_auth_def getitem_def bindE_def)

lemma alice_record:
  "issue_record (sample_env ts) alice_ticket =
     Inr \<lparr> channel_id = ''jira'', title = ''Printer, broken'', original_summary = '''',
           description = '''', entries = ''# Entry 1: a'' @ [CHR 0x0A] @ ''# Entry 2: b'' @ [CHR 0x0A],
           resolved_by = ''Alice'', resolved_timestamp = ''1705314600'' \<rparr>"
  by (simp add: issue_record_def alice_ticket_def status_change_def bindE_def lower_def
      lower_char_def convert_timestamp_def sample_env_def str_int_def str_nat.simps digit_char_def
      truthy_or_empty_def concatenated_comments_def)

lemma reopened_record:
  "issue_record (sample_env ts) reopened_ticket =
     Inr \<lparr> channel_id = ''jira'', title = ''Login fails'', original_summary = '''',
           description = ''since Monday'', entries = '''',
           resolved_by = '''', resolved_timestamp = '''' \<rparr>"
  by (simp add: issue_record_def reopened_ticket_def status_change_def bindE_def lower_def
      lower_char_def convert_timestamp_def truthy_or_empty_def concatenated_comments_def)

lemma empty_time_record:
  "issue_record (sample_env ts) empty_time_ticket = Inr empty_time_data"
  by (simp add: issue_record_def empty_time_ticket_def status_change_def bindE_def lower_def
      lower_char_def convert_timestamp_def truthy_or_empty_def concatenated_comments_def
      empty_time_data_def)

lemma sample_fetch:
  "fetch_jira_issues (sample_env [alice_ticket, reopened_ticket]) sample_jira_auth 30 50 =
     (IssuesData
        [\<lparr> channel_id = ''jira'', title = ''Printer, broken'', original_summary = '''',
            description = '''', entries = ''# Entry 1: a'' @ [CHR 0x0A] @ ''# Entry 2: b'' @ [CHR 0x0A],
            resolved_by = ''Alice'', resolved_timestamp = ''1705314600'' \<rparr>,
         \<lparr> channel_id = ''jira'', title = ''Login fails'', original_summary = '''',
            description = ''since Monday'', entries = '''',
            resolved_by = '''', resolved_timestamp = '''' \<rparr>], 200)"
  by (simp add: fetch_jira_issues_def fetch_try_def sample_search bindE_def alice_record
      reopened_record)

section \<open>Resolution derivation\<close>

text \<open>
  Claim C1, as the code has it. For every ticket of a run that emits records, only the
  first status change decides the resolution, first in the order in which the tracker
  lists the history entries and, within an entry, its changes. With no status change both
  fields are empty. Otherwise let \<open>h\<close> be the first entry holding a status change and
  \<open>it\<close> the first such change in it, whatever comes after either; the new value of
  \<open>it\<close> is present. If it is \<open>done\<close> up to case, \<open>resolved_by\<close> is the display name
  of the author of \<open>h\<close>, and \<open>resolved_timestamp\<close> is, for a non-empty creation time of
  \<open>h\<close>, the non-empty decimal string that denotes the epoch seconds of that creation
  time, and for an empty creation time the empty string. If it is any other value, both
  fields are empty. So \<open>resolved_timestamp\<close> is set exactly when the first status change
  is to \<open>done\<close> and the creation time of its entry is not empty.
\<close>

theorem resolution_first_status_change:
  assumes "search_tickets ev jira_auth total_days max_issues = Inr issues"
    and "fetch_jira_issues ev jira_auth total_days max_issues = (IssuesData rs, st)"
    and "i < length issues"
  shows "i < length rs \<and>
    ((\<forall>h\<in>set (changelog_histories (issues ! i)). \<forall>it\<in>set (items h). field it \<noteq> ''status'') \<longrightarrow>
        resolved_by (rs ! i) = '''' \<and> resolved_timestamp (rs ! i) = '''') \<and>
    (\<forall>pre h post ipre it ipost.
        changelog_histories (issues ! i) = pre @ h # post \<and>
        (\<forall>h'\<in>set pre. \<forall>it'\<in>set (items h'). field it' \<noteq> ''status'') \<and>
        items h = ipre @ it # ipost \<and>
        (\<forall>it'\<in>set ipre. field it' \<noteq> ''status'') \<and>
        field it = ''status'' \<longrightarrow>
        (\<exists>v. toString it = Some v \<and>
          (if lower v = ''done''
           then author_displayName h = Some (resolved_by (rs ! i)) \<and>
                (if created h = '''' then resolved_timestamp (rs ! i) = ''''
                 else resolved_timestamp (rs ! i) \<noteq> '''' \<and>
                      (\<exists>n. strptime_epoch ev (created h) = Some n \<and>
                           resolved_timestamp (rs ! i) = str_int n \<and>
                           decimal_value (resolved_timestamp (rs ! i)) = Some n))
           else resolved_by (rs ! i) = '''' \<and> resolved_timestamp (rs ! i) = '''') \<and>
          (resolved_timestamp (rs ! i) \<noteq> '''' \<longleftrightarrow> lower v = ''done'' \<and> created h \<noteq> '''')))"
proof -
  let ?rb = "resolved_by (rs ! i)" and ?rt = "resolved_timestamp (rs ! i)"
  from fetch_success [OF assms(1,2)]
  have all2: "list_all2 (\<lambda>t d. issue_record ev t = Inr d) issues rs" by simp
  with assms(3) have len: "i < length rs"
    and rec: "issue_record ev (issues ! i) = Inr (rs ! i)"
    by (auto simp: list_all2_conv_all_nth)
  from issue_record_Inr [OF rec] obtain rt f where
    scan: "scan_histories (changelog_histories (issues ! i)) ('''', '''', False) = Inr (?rb, rt, f)"
    and conv: "convert_timestamp ev rt = Inr ?rt"
    by blast
  have none: "?rb = '''' \<and> ?rt = ''''"
    if "\<forall>h\<in>set (changelog_histories (issues ! i)). \<forall>it\<in>set (items h). field it \<noteq> ''status''"
    using scan conv scan_histories_no_status [OF that, of "''''" "''''"]
    by (auto simp: convert_timestamp_def)
  have first: "\<exists>v. toString it = Some v \<and>
          (if lower v = ''done''
           then author_displayName h = Some ?rb \<and>
                (if created h = '''' then ?rt = ''''
                 else ?rt \<noteq> '''' \<and>
                      (\<exists>n. strptime_epoch ev (created h) = Some n \<and> ?rt = str_int n \<and>
                           decimal_value ?rt = Some n))
           else ?rb = '''' \<and> ?rt = '''') \<and>
          (?rt \<noteq> '''' \<longleftrightarrow> lower v = ''done'' \<and> created h \<noteq> '''')"
    if "changelog_histories (issues ! i) = pre @ h # post"
      and "\<forall>h'\<in>set pre. \<forall>it'\<in>set (items h'). field it' \<noteq> ''status''"
      and "items h = ipre @ it # ipost"
      and "\<forall>it'\<in>set ipre. field it' \<noteq> ''status''"
      and "field it = ''status''"
    for pre h post ipre it ipost
  proof -
    from scan that(1) scan_histories_first_status [OF that(2,3,4,5), of post "''''" "''''"]
    have eq: "(case toString it of
        None \<Rightarrow> Inl (AttributeError ''lower'')
      | Some v \<Rightarrow>
          if lower v = ''done'' then
            (case author_displayName h of
               None \<Rightarrow> Inl (AttributeError ''author'')
             | Some a \<Rightarrow> Inr (a, created h, True))
          else Inr ('''', '''', True)) = Inr (?rb, rt, f)"
      by simp
    then obtain v where v: "toString it = Some v"
      by (cases "toString it") auto
    show ?thesis
    proof (cases "lower v = ''done''")
      case False
      with eq v have "?rb = ''''" "rt = ''''" by simp_all
      with conv have "?rb = '''' \<and> ?rt = ''''" by (simp add: convert_timestamp_def)
      with v False show ?thesis by simp
    next
      case True
      with eq v have name: "author_displayName h = Some ?rb" and rt: "rt = created h"
        by (auto split: option.splits)
      show ?thesis
      proof (cases "created h = ''''")
        case True
        with conv rt have "?rt = ''''" by (simp add: convert_timestamp_def)
        with v \<open>lower v = ''done''\<close> name True show ?thesis by simp
      next
        case False
        with conv rt obtain n where n: "strptime_epoch ev (created h) = Some n"
          and "str_int n = ?rt"
          by (auto simp: convert_timestamp_def split: option.splits)
        then have t: "?rt = str_int n" by simp
        then have "?rt \<noteq> ''''" and "decimal_value ?rt = Some n"
          by (simp_all add: str_int_nonempty decimal_value_str_int)
        with v \<open>lower v = ''done''\<close> name False n t show ?thesis by simp
      qed
    qed
  qed
  from len none first show ?thesis by blast
qed

theorem resolution_first_status_change_witness:
  "\<exists>rs. fetch_jira_issues (sample_env [alice_ticket, reopened_ticket]) sample_jira_auth 30 50
          = (IssuesData rs, 200)
      \<and> resolved_by (rs ! 0) = ''Alice'' \<and> resolved_timestamp (rs ! 0) = ''1705314600''
      \<and> decimal_value (resolved_timestamp (rs ! 0)) = Some 1705314600
      \<and> resolved_by (rs ! 1) = '''' \<and> resolved_timestamp (rs ! 1) = ''''"
proof -
  let ?ev = "sample_env [alice_ticket, reopened_ticket]"
  let ?ts = "[alice_ticket, reopened_ticket]"
  obtain rs where f: "fetch_jira_issues ?ev sample_jira_auth 30 50 = (IssuesData rs, 200)"
    using sample_fetch by blast
  have s: "search_tickets ?ev sample_jira_auth 30 50 = Inr ?ts"
    by (simp add: sample_search)
  let ?alice = "\<lparr> author_displayName = Some ''Alice'', created = ''2024-01-15T10:30:00.000+0000'',
                    items = [status_change ''Done''] \<rparr>"
  let ?bob = "\<lparr> author_displayName = Some ''Bob'', created = ''2024-01-14T08:00:00.000+0000'',
                  items = [status_change ''In Progress''] \<rparr>"
  let ?assignee = "\<lparr> field = ''assignee'', toString = None \<rparr>"
  let ?solo = "\<lparr> author_displayName = Some ''Alice'', created = ''2024-01-15T10:30:00.000+0000'',
                     items = [?assignee, status_change ''Done''] \<rparr>"
  have i1: "1 < length ?ts" and i0: "0 < length ?ts" by simp_all
  have b1: "changelog_histories (?ts ! 1) = [] @ ?bob # [?alice]"
    and b2: "\<forall>h'\<in>set []. \<forall>it'\<in>set (items h'). field it' \<noteq> ''status''"
    and b3: "items ?bob = [] @ status_change ''In Progress'' # []"
    and b4: "\<forall>it'\<in>set []. field it' \<noteq> ''status''"
    and b5: "field (status_change ''In Progress'') = ''status''"
    by (simp_all add: reopened_ticket_def status_change_def)
  have a1: "changelog_histories (?ts ! 0) = [] @ ?solo # []"
    and a3: "items ?solo = [?assignee] @ status_change ''Done'' # []"
    and a4: "\<forall>it'\<in>set [?assignee]. field it' \<noteq> ''status''"
    and a5: "field (status_change ''Done'') = ''status''"
    by (simp_all add: alice_ticket_def status_change_def)
  have later_done: "resolved_by (rs ! 1) = '''' \<and> resolved_timestamp (rs ! 1) = ''''"
    using resolution_first_status_change [OF s f i1, THEN conjunct2, THEN conjunct2,
        rule_format, OF conjI [OF b1 conjI [OF b2 conjI [OF b3 conjI [OF b4 b5]]]]]
    by (simp add: status_change_def lower_def lower_char_def)
  have done_first: "resolved_by (rs ! 0) = ''Alice'' \<and> resolved_timestamp (rs ! 0) = str_int 1705314600
      \<and> decimal_value (resolved_timestamp (rs ! 0)) = Some 1705314600"
    using resolution_first_status_change [OF s f i0, THEN conjunct2, THEN conjunct2,
        rule_format, OF conjI [OF a1 conjI [OF b2 conjI [OF a3 conjI [OF a4 a5]]]]]
    by (simp add: status_change_def lower_def lower_char_def sample_env_def decimal_value_str_int)
  have digits: "str_int 1705314600 = ''1705314600''"
    by (simp add: str_int_def str_nat.simps digit_char_def)
  from done_first have "resolved_timestamp (rs ! 0) = ''1705314600''"
    unfolding digits by blast
  with done_first have only_done: "resolved_by (rs ! 0) = ''Alice'' \<and>
      resolved_timestamp (rs ! 0) = ''1705314600''
      \<and> decimal_value (resolved_timestamp (rs ! 0)) = Some 1705314600"
    by blast
  from f later_done only_done show ?thesis by blast
qed

text \<open>
  Claim C1, as stated, fails on a ticket whose only status change is to \<open>Done\<close> in an
  entry whose creation time is the empty string: line 112 takes the empty string for
  "not resolved", so \<open>resolved_by\<close> is set and \<open>resolved_timestamp\<close> is not.
\<close>

theorem resolution_empty_creation_time_counterexample:
  "fetch_jira_issues (sample_env [empty_time_ticket]) sample_jira_auth 30 50
     = (IssuesData [empty_time_data], 200)
   \<and> changelog_histories empty_time_ticket =
       [\<lparr> author_displayName = Some ''Dave'', created = '''', items = [status_change ''Done''] \<rparr>]
   \<and> field (status_change ''Done'') = ''status''
   \<and> map_option lower (toString (status_change ''Done'')) = Some ''done''
   \<and> resolved_by empty_time_data = ''Dave''
   \<and> resolved_timestamp empty_time_data = ''''"
  by (simp add: fetch_jira_issues_def fetch_try_def sample_search bindE_def empty_time_record)
     (simp add: empty_time_ticket_def empty_time_data_def status_change_def lower_def lower_char_def)

section \<open>Rendering of the comments\<close>

lemma concat_comments_eq:
  "concat_comments i cs acc =
     acc @ concat (map (\<lambda>(n, c). ''# Entry '' @ str_nat n @ '': '' @ body c @ [CHR 0x0A])
                       (enumerate i cs))"
  by (induction cs arbitrary: i acc) simp_all

lemma concatenated_comments_eq:
  "concatenated_comments cs =
     concat (map (\<lambda>(n, c). ''# Entry '' @ str_nat n @ '': '' @ body c @ [CHR 0x0A]) (enumerate 1 cs))"
  by (cases cs) (simp_all add: concatenated_comments_def concat_comments_eq)

text \<open>
  Claim C2, as the code has it. For every ticket of a run that emits records, \<open>entries\<close>
  is the concatenation, in the order of the comments, of one line per comment: the label
  \<open># Entry N: \<close> with \<open>N\<close> counting from 1, the body of the comment, and a newline; every
  comment, the last one too, ends with its newline. It is the empty string for a ticket
  without comments.
\<close>

theorem entries_numbered_lines:
  assumes "search_tickets ev jira_auth total_days max_issues = Inr issues"
    and "fetch_jira_issues ev jira_auth total_days max_issues = (IssuesData rs, st)"
    and "i < length issues"
  shows "i < length rs \<and>
    entries (rs ! i) =
      concat (map (\<lambda>(n, c). ''# Entry '' @ str_nat n @ '': '' @ body c @ [CHR 0x0A])
                  (enumerate 1 (fields_comment_comments (issues ! i)))) \<and>
    (fields_comment_comments (issues ! i) = [] \<longrightarrow> entries (rs ! i) = '''')"
proof -
  from fetch_success [OF assms(1,2)]
  have "list_all2 (\<lambda>t d. issue_record ev t = Inr d) issues rs" by simp
  with assms(3) have len: "i < length rs"
    and rec: "issue_record ev (issues ! i) = Inr (rs ! i)"
    by (auto simp: list_all2_conv_all_nth)
  from issue_record_Inr [OF rec]
  have "entries (rs ! i) = concatenated_comments (fields_comment_comments (issues ! i))"
    by blast
  with len show ?thesis
    by (simp add: concatenated_comments_eq)
qed

theorem entries_numbered_lines_witness:
  "\<exists>rs. fetch_jira_issues (sample_env [alice_ticket, reopened_ticket]) sample_jira_auth 30 50
          = (IssuesData rs, 200)
      \<and> entries (rs ! 0) = ''# Entry 1: a'' @ [CHR 0x0A] @ ''# Entry 2: b'' @ [CHR 0x0A]
      \<and> entries (rs ! 1) = ''''"
proof -
  let ?ts = "[alice_ticket, reopened_ticket]"
  obtain rs where f: "fetch_jira_issues (sample_env ?ts) sample_jira_auth 30 50 = (IssuesData rs, 200)"
    using sample_fetch by blast
  have s: "search_tickets (sample_env ?ts) sample_jira_auth 30 50 = Inr ?ts"
    by (simp add: sample_search)
  have i0: "0 < length ?ts" and i1: "1 < length ?ts" by simp_all
  have "entries (rs ! 0) = ''# Entry 1: a'' @ [CHR 0x0A] @ ''# Entry 2: b'' @ [CHR 0x0A]"
    using entries_numbered_lines [OF s f i0]
    by (simp add: alice_ticket_def enumerate_eq_zip upt_rec str_nat.simps digit_char_def)
  moreover have "entries (rs ! 1) = ''''"
    using entries_numbered_lines [OF s f i1]
    by (simp add: reopened_ticket_def)
  ultimately show ?thesis using f by blast
qed

text \<open>
  Claim C2, as the specification words it, fails on a ticket with the two comments
  \<open>a\<close> and \<open>b\<close>: the code writes a \<open># \<close> before each label and a newline after the
  last comment, so the field is not the labelled comments joined by newlines.
\<close>

theorem entries_joined_by_newlines_counterexample:
  "issue_record (sample_env []) alice_ticket =
     Inr \<lparr> channel_id = ''jira'', title = ''Printer, broken'', original_summary = '''',
           description = '''', entries = ''# Entry 1: a'' @ [CHR 0x0A] @ ''# Entry 2: b'' @ [CHR 0x0A],
           resolved_by = ''Alice'', resolved_timestamp = ''1705314600'' \<rparr>
   \<and> spec_entries (fields_comment_comments alice_ticket) = ''Entry 1: a'' @ [CHR 0x0A] @ ''Entry 2: b''
   \<and> ''# Entry 1: a'' @ [CHR 0x0A] @ ''# Entry 2: b'' @ [CHR 0x0A]
       \<noteq> spec_entries (fields_comment_comments alice_ticket)"
  by (simp add: alice_record)
     (simp add: spec_entries_def alice_ticket_def enumerate_eq_zip upt_rec str_nat.simps digit_char_def)

section \<open>The two resolution fields together\<close>





section \<open>Failures of the extractor\<close>

lemma fetch_try_Inl:
  "fetch_try ev jira_auth total_days max_issues = Inl e \<Longrightarrow>
   fetch_jira_issues ev jira_auth total_days max_issues = (ErrorDict ''Unable to login to JIRA'', 401)"
  by (simp add: fetch_jira_issues_def)

lemma fetch_record_raises:
  assumes "search_tickets ev jira_auth total_days max_issues = Inr issues"
    and "t \<in> set issues" and "issue_record ev t = Inl e"
  shows "fetch_jira_issues ev jira_auth total_days max_issues = (ErrorDict ''Unable to login to JIRA'', 401)"
proof -
  from assms(2) have "issues \<noteq> []" by auto
  moreover from collect_issues_Inl [OF assms(2,3)]
  obtain e' where "collect_issues ev issues [] = Inl e'" by blast
  ultimately have "fetch_try ev jira_auth total_days max_issues = Inl e'"
    using assms(1) by (simp add: fetch_try_def bindE_def)
  then show ?thesis by (rule fetch_try_Inl)
qed

lemma unparsed_time_raises:
  assumes "changelog_histories t = pre @ h # post"
    and "\<forall>h'\<in>set pre. \<forall>it'\<in>set (items h'). field it' \<noteq> ''status''"
    and "items h = ipre @ it # ipost"
    and "\<forall>it'\<in>set ipre. field it' \<noteq> ''status''"
    and "field it = ''status''"
    and "toString it = Some v" and "lower v = ''done''"
    and "author_displayName h = Some a"
    and "created h \<noteq> ''''" and "strptime_epoch ev (created h) = None"
  shows "issue_record ev t = Inl (ValueError ''time data does not match format'')"
  using scan_histories_first_status [OF assms(2,3,4,5), of post "''''" "''''"] assms(1,6-)
  by (simp add: issue_record_def bindE_def convert_timestamp_def)

text \<open>
  Claim C10. Every exception inside the extractor gives the one response
  \<open>Unable to login to JIRA\<close> with status 401: an exception of the \<^verbatim>\<open>try\<close> body
  whatever its kind; in particular a failed connection, and, after a search that
  succeeded, the derivation of any one ticket raising; in particular a first status change
  to \<open>done\<close> whose entry has a creation time that the date library does not parse. The
  response of the malformed ticket and of the failed connection are the same.
\<close>

theorem extraction_exception_generic_401:
  "(fetch_try ev jira_auth total_days max_issues = Inl e \<longrightarrow>
      fetch_jira_issues ev jira_auth total_days max_issues
        = (ErrorDict ''Unable to login to JIRA'', 401)) \<and>
   (getitem jira_auth ''jira_url'' = Inr url \<and> getitem jira_auth ''username'' = Inr user \<and>
    getitem jira_auth ''token'' = Inr token \<and> jira_connect ev url user token = Some e1 \<longrightarrow>
      fetch_jira_issues ev jira_auth total_days max_issues
        = (ErrorDict ''Unable to login to JIRA'', 401)) \<and>
   (search_tickets ev jira_auth total_days max_issues = Inr issues \<and> t \<in> set issues \<and>
    issue_record ev t = Inl e2 \<longrightarrow>
      fetch_jira_issues ev jira_auth total_days max_issues
        = (ErrorDict ''Unable to login to JIRA'', 401)) \<and>
   (search_tickets ev jira_auth total_days max_issues = Inr issues \<and> t \<in> set issues \<and>
    changelog_histories t = pre @ h # post \<and>
    (\<forall>h'\<in>set pre. \<forall>it'\<in>set (items h'). field it' \<noteq> ''status'') \<and>
    items h = ipre @ it # ipost \<and>
    (\<forall>it'\<in>set ipre. field it' \<noteq> ''status'') \<and>
    field it = ''status'' \<and> toString it = Some v \<and> lower v = ''done'' \<and>
    author_displayName h = Some a \<and> created h \<noteq> '''' \<and> strptime_epoch ev (created h) = None \<longrightarrow>
      fetch_jira_issues ev jira_auth total_days max_issues
        = (ErrorDict ''Unable to login to JIRA'', 401))"
proof (intro conjI impI)
  assume "fetch_try ev jira_auth total_days max_issues = Inl e"
  then show "fetch_jira_issues ev jira_auth total_days max_issues
        = (ErrorDict ''Unable to login to JIRA'', 401)"
    by (rule fetch_try_Inl)
next
  assume "getitem jira_auth ''jira_url'' = Inr url \<and> getitem jira_auth ''username'' = Inr user \<and>
    getitem jira_auth ''token'' = Inr token \<and> jira_connect ev url user token = Some e1"
  then have "fetch_try ev jira_auth total_days max_issues = Inl e1"
    by (simp add: fetch_try_def search_tickets_def bindE_def)
  then show "fetch_jira_issues ev jira_auth total_days max_issues
        = (ErrorDict ''Unable to login to JIRA'', 401)"
    by (rule fetch_try_Inl)
next
  assume "search_tickets ev jira_auth total_days max_issues = Inr issues \<and> t \<in> set issues \<and>
    issue_record ev t = Inl e2"
  then show "fetch_jira_issues ev jira_auth total_days max_issues
        = (ErrorDict ''Unable to login to JIRA'', 401)"
    using fetch_record_raises by blast
next
  assume a: "search_tickets ev jira_auth total_days max_issues = Inr issues \<and> t \<in> set issues \<and>
    changelog_histories t = pre @ h # post \<and>
    (\<forall>h'\<in>set pre. \<forall>it'\<in>set (items h'). field it' \<noteq> ''status'') \<and>
    items h = ipre @ it # ipost \<and>
    (\<forall>it'\<in>set ipre. field it' \<noteq> ''status'') \<and>
    field it = ''status'' \<and> toString it = Some v \<and> lower v = ''done'' \<and>
    author_displayName h = Some a \<and> created h \<noteq> '''' \<and> strptime_epoch ev (created h) = None"
  then have "issue_record ev t = Inl (ValueError ''time data does not match format'')"
    by (intro unparsed_time_raises [of t pre h post ipre it ipost v a ev]) simp_all
  with a show "fetch_jira_issues ev jira_auth total_days max_issues
        = (ErrorDict ''Unable to login to JIRA'', 401)"
    using fetch_record_raises by blast
qed

theorem extraction_exception_generic_401_witness:
  "fetch_jira_issues (sample_env [alice_ticket, bad_time_ticket]) sample_jira_auth 30 50
     = (ErrorDict ''Unable to login to JIRA'', 401)
   \<and> fetch_jira_issues ((sample_env [alice_ticket]) \<lparr> jira_connect := \<lambda>url user token. Some (SdkError ''HTTP 401'') \<rparr>)
       sample_jira_auth 30 50
     = (ErrorDict ''Unable to login to JIRA'', 401)"
proof -
  let ?ts = "[alice_ticket, bad_time_ticket]"
  let ?ev = "sample_env ?ts"
  let ?carol = "\<lparr> author_displayName = Some ''Carol'', created = ''2024-01-15 10:30'',
                    items = [status_change ''DONE''] \<rparr>"
  have malformed: "search_tickets ?ev sample_jira_auth 30 50 = Inr ?ts \<and> bad_time_ticket \<in> set ?ts \<and>
    changelog_histories bad_time_ticket = [] @ ?carol # [] \<and>
    (\<forall>h'\<in>set []. \<forall>it'\<in>set (items h'). field it' \<noteq> ''status'') \<and>
    items ?carol = [] @ status_change ''DONE'' # [] \<and>
    (\<forall>it'\<in>set []. field it' \<noteq> ''status'') \<and>
    field (status_change ''DONE'') = ''status'' \<and> toString (status_change ''DONE'') = Some ''DONE'' \<and>
    lower ''DONE'' = ''done'' \<and>
    author_displayName ?carol = Some ''Carol'' \<and> created ?carol \<noteq> '''' \<and>
    strptime_epoch ?ev (created ?carol) = None"
    by (simp add: sample_search bad_time_ticket_def status_change_def lower_def lower_char_def)
       (simp add: sample_env_def)
  let ?down = "(sample_env [alice_ticket]) \<lparr> jira_connect := \<lambda>url user token. Some (SdkError ''HTTP 401'') \<rparr>"
  have refused: "getitem sample_jira_auth ''jira_url'' = Inr ''https://tracker.example'' \<and>
    getitem sample_jira_auth ''username'' = Inr ''bot'' \<and>
    getitem sample_jira_auth ''token'' = Inr ''secret'' \<and>
    jira_connect ?down ''https://tracker.example'' ''bot'' ''secret'' = Some (SdkError ''HTTP 401'')"
    by (simp add: getitem_def sample_jira_auth_def)
  from extraction_exception_generic_401 [THEN conjunct2, THEN conjunct2, THEN conjunct2,
      THEN mp, OF malformed]
    extraction_exception_generic_401 [THEN conjunct2, THEN conjunct1, THEN mp, OF refused]
  show ?thesis by simp
qed

section \<open>An empty result of the tracker\<close>

lemma fetch_never_empty_success:
  "fetch_jira_issues ev jira_auth total_days max_issues \<noteq> (IssuesData [], st)"
proof
  assume f: "fetch_jira_issues ev jira_auth total_days max_issues = (IssuesData [], st)"
  then obtain issues where s: "search_tickets ev jira_auth total_days max_issues = Inr issues"
    by (cases "search_tickets ev jira_auth total_days max_issues")
       (auto simp: fetch_jira_issues_def fetch_try_def bindE_def)
  from fetch_success [OF s f] show False
    by auto
qed

lemma process_fetch_failed:
  assumes "fetch_jira_issues ev jira_auth total_days max_issues = (p, st)" and "st \<noteq> 200"
  shows "process_issues ev jira_auth azure_auth queue_auth total_days max_issues business_id
           timestamp agent_id w
         = ((p, st), w\<lparr> stdout := stdout w @ [PrintHeader, PrintJson p] \<rparr>)"
  using assms by (simp add: process_issues_def Let_def)

text \<open>
  Claim C3. When the search of the tracker returns no ticket, the extractor returns the
  error \<open>No tickets found\<close> with status 404; the run returns that response, prints the
  two lines of the orchestrator, writes no blob, sends no message and makes no request to
  the blob store or the queue. No run of the extractor, whatever the environment, returns
  an empty list of records.
\<close>

theorem zero_tickets_not_found:
  assumes "search_tickets ev jira_auth total_days max_issues = Inr []"
  shows "fetch_jira_issues ev jira_auth total_days max_issues = (ErrorDict ''No tickets found'', 404) \<and>
    process_issues ev jira_auth azure_auth queue_auth total_days max_issues business_id
        timestamp agent_id w
      = ((ErrorDict ''No tickets found'', 404),
         w\<lparr> stdout := stdout w @ [PrintHeader, PrintJson (ErrorDict ''No tickets found'')] \<rparr>) \<and>
    blobs (snd (process_issues ev jira_auth azure_auth queue_auth total_days max_issues
        business_id timestamp agent_id w)) = blobs w \<and>
    queue (snd (process_issues ev jira_auth azure_auth queue_auth total_days max_issues
        business_id timestamp agent_id w)) = queue w \<and>
    calls (snd (process_issues ev jira_auth azure_auth queue_auth total_days max_issues
        business_id timestamp agent_id w)) = calls w \<and>
    (\<forall>ev' auth' days' max' st'. fetch_jira_issues ev' auth' days' max' \<noteq> (IssuesData [], st'))"
proof -
  from assms
  have f: "fetch_jira_issues ev jira_auth total_days max_issues = (ErrorDict ''No tickets found'', 404)"
    by (simp add: fetch_jira_issues_def fetch_try_def bindE_def)
  have p: "process_issues ev jira_auth azure_auth queue_auth total_days max_issues business_id
        timestamp agent_id w
      = ((ErrorDict ''No tickets found'', 404),
         w\<lparr> stdout := stdout w @ [PrintHeader, PrintJson (ErrorDict ''No tickets found'')] \<rparr>)"
    by (rule process_fetch_failed [OF f]) simp
  from f p fetch_never_empty_success show ?thesis
    by simp
qed

theorem zero_tickets_not_found_witness:
  "process_issues (sample_env []) sample_jira_auth sample_azure_auth sample_queue_auth 30 50
      ''T'' ''123'' ''A'' empty_world
    = ((ErrorDict ''No tickets found'', 404),
       \<lparr> blobs = Map.empty, queue = [],
         stdout = [PrintHeader, PrintJson (ErrorDict ''No tickets found'')], calls = [] \<rparr>)"
proof -
  have s: "search_tickets (sample_env []) sample_jira_auth 30 50 = Inr []"
    by (simp add: sample_search)
  from zero_tickets_not_found [OF s, of sample_azure_auth sample_queue_auth "''T''" "''123''" "''A''"
      empty_world]
  show ?thesis by (simp add: empty_world_def)
qed

section \<open>Facts about the archiver and the notifier\<close>

lemma writerow_columns:
  "writerow columns =
     ''channel_id,title,original_summary,description,entries,resolved_by,resolved_timestamp''
       @ [CHR 0x0D, CHR 0x0A]"
  by (simp add: writerow_def columns_def csv_field_def csv_special_def)

lemma writerow_item:
  "writerow (item_columns r) =
     csv_field (channel_id r) @ '','' @ csv_field (title r) @ '','' @
     csv_field (original_summary r) @ '','' @ csv_field (description r) @ '','' @
     csv_field (entries r) @ '','' @ csv_field (resolved_by r) @ '','' @
     csv_field (resolved_timestamp r) @ [CHR 0x0D, CHR 0x0A]"
  by (simp add: writerow_def item_columns_def)

lemma csv_field_plain: "\<not> list_ex csv_special s \<Longrightarrow> csv_field s = s"
  by (simp add: csv_field_def)

lemma csv_field_quoted:
  "list_ex csv_special s \<Longrightarrow>
   csv_field s = [CHR 0x22] @ concat (map (\<lambda>c. if c = CHR 0x22 then [c, c] else [c]) s) @ [CHR 0x22]"
  by (simp add: csv_field_def)

lemma csv_content_rows:
  "csv_content (IssuesData rows) =
     Inr (''channel_id,title,original_summary,description,entries,resolved_by,resolved_timestamp''
            @ [CHR 0x0D, CHR 0x0A]
          @ concat (map (\<lambda>r.
              csv_field (channel_id r) @ '','' @ csv_field (title r) @ '','' @
              csv_field (original_summary r) @ '','' @ csv_field (description r) @ '','' @
              csv_field (entries r) @ '','' @ csv_field (resolved_by r) @ '','' @
              csv_field (resolved_timestamp r) @ [CHR 0x0D, CHR 0x0A]) rows))"
  by (simp add: csv_content_def writerow_columns writerow_item)

lemma upload_result:
  assumes "upload_csv_to_azure ev azure_auth business_id csv_data timestamp agent_id w = ((p, st), w')"
  shows "(st = 200 \<and> p = SuccessDict (base_folder_of business_id) \<and>
          (\<exists>c content. getitem azure_auth ''container_name'' = Inr c \<and>
             csv_content csv_data = Inr content \<and>
             blobs w (c, blob_name_of business_id agent_id timestamp) = None \<and>
             w' = w\<lparr> calls := calls w @ [BlobUpload c (blob_name_of business_id agent_id timestamp) content False],
                     blobs := (blobs w)((c, blob_name_of business_id agent_id timestamp) \<mapsto> content) \<rparr>))
       \<or> (st = 500 \<and> (\<exists>m. p = ErrorDict m) \<and>
          (w' = w \<or>
           (\<exists>c content. getitem azure_auth ''container_name'' = Inr c \<and>
              csv_content csv_data = Inr content \<and>
              w' = w\<lparr> calls := calls w @ [BlobUpload c (blob_name_of business_id agent_id timestamp) content False] \<rparr>)))"
  using assms
  by (auto simp: upload_csv_to_azure_def upload_try_def upload_blob_def Let_def
      split: sum.splits option.splits if_splits prod.splits)

lemma send_result:
  "(\<exists>qn. getitem queue_auth ''queue_name'' = Inr qn \<and>
      send_message_to_queue ev queue_auth msg w =
        w\<lparr> calls := calls w @ [QueueSend qn (json_dumps ev msg)],
           queue := queue w @ [(qn, json_dumps ev msg)],
           stdout := stdout w @ [PrintMessageAdded msg] \<rparr>)
   \<or> (\<exists>e. send_message_to_queue ev queue_auth msg w = w\<lparr> stdout := stdout w @ [PrintQueueError e] \<rparr>)
   \<or> (\<exists>e qn. getitem queue_auth ''queue_name'' = Inr qn \<and>
        send_message_to_queue ev queue_auth msg w =
          w\<lparr> calls := calls w @ [QueueSend qn (json_dumps ev msg)],
             stdout := stdout w @ [PrintQueueError e] \<rparr>)"
  by (auto simp: send_message_to_queue_def send_try_def send_message_def Let_def
      split: sum.splits option.splits if_splits prod.splits)

lemma sample_fetch_data:
  "fetch_jira_issues (sample_env [alice_ticket, reopened_ticket]) sample_jira_auth 30 50 =
     (IssuesData [alice_data, reopened_data], 200)"
  by (simp add: sample_fetch alice_data_def reopened_data_def)

lemma sample_csv_content:
  "csv_content (IssuesData [alice_data, reopened_data]) = Inr sample_csv"
  by (simp add: csv_content_rows alice_data_def reopened_data_def csv_field_def csv_special_def
      sample_csv_def)

lemma sample_blob_name: "blob_name_of ''T'' ''A'' ''123'' = sample_blob_name"
  by (simp add: blob_name_of_def base_folder_of_def sample_blob_name_def)

lemma sample_upload:
  "upload_csv_to_azure (sample_env ts) sample_azure_auth ''T'' (IssuesData [alice_data, reopened_data])
       ''123'' ''A'' w =
     (if blobs w (''exports'', sample_blob_name) = None
      then ((SuccessDict ''T/interactions/incidents/jira'', 200),
            w\<lparr> calls := calls w @ [BlobUpload ''exports'' sample_blob_name sample_csv False],
                blobs := (blobs w)((''exports'', sample_blob_name) \<mapsto> sample_csv) \<rparr>)
      else ((ErrorDict ''New file cannot be created in Azure'', 500),
            w\<lparr> calls := calls w @ [BlobUpload ''exports'' sample_blob_name sample_csv False] \<rparr>))"
  by (simp add: upload_csv_to_azure_def upload_try_def upload_blob_def Let_def getitem_def
      sample_azure_auth_def sample_csv_content sample_blob_name sample_env_def base_folder_of_def)

section \<open>The archived object\<close>

text \<open>
  Claim C8. When the archiver succeeds on a sequence of records, the container named in
  the credentials holds one more blob than before, at the path
  \<open>{tenant}/interactions/incidents/jira/request-{tenant}-{agent}-{timestamp}.csv\<close>,
  which held nothing; one upload was requested, with \<^verbatim>\<open>overwrite=False\<close>; the content
  is the header line of the seven columns and one line per record in the order of the
  sequence, the fields separated by commas and written by \<open>csv_field\<close> (quoted, with the
  quotes doubled, exactly when they hold a comma, a quote, a CR or an LF), every line ended
  by CR LF. When it fails, no blob has changed.
\<close>

theorem archive_path_and_content:
  assumes "upload_csv_to_azure ev azure_auth business_id (IssuesData rows) timestamp agent_id w
             = ((p, st), w')"
  shows "(st = 200 \<longrightarrow>
      (\<exists>c. getitem azure_auth ''container_name'' = Inr c \<and>
        blobs w (c, business_id @ ''/interactions/incidents/jira/request-'' @ business_id @ ''-''
                      @ agent_id @ ''-'' @ timestamp @ ''.csv'') = None \<and>
        blobs w' = (blobs w)
          ((c, business_id @ ''/interactions/incidents/jira/request-'' @ business_id @ ''-''
                 @ agent_id @ ''-'' @ timestamp @ ''.csv'') \<mapsto>
           ''channel_id,title,original_summary,description,entries,resolved_by,resolved_timestamp''
             @ [CHR 0x0D, CHR 0x0A]
           @ concat (map (\<lambda>r.
               csv_field (channel_id r) @ '','' @ csv_field (title r) @ '','' @
               csv_field (original_summary r) @ '','' @ csv_field (description r) @ '','' @
               csv_field (entries r) @ '','' @ csv_field (resolved_by r) @ '','' @
               csv_field (resolved_timestamp r) @ [CHR 0x0D, CHR 0x0A]) rows)) \<and>
        (\<exists>content. calls w' = calls w @
           [BlobUpload c (business_id @ ''/interactions/incidents/jira/request-'' @ business_id
              @ ''-'' @ agent_id @ ''-'' @ timestamp @ ''.csv'') content False]
           \<and> blobs w' (c, business_id @ ''/interactions/incidents/jira/request-'' @ business_id
              @ ''-'' @ agent_id @ ''-'' @ timestamp @ ''.csv'') = Some content) \<and>
        p = SuccessDict (business_id @ ''/interactions/incidents/jira'')))
    \<and> (st \<noteq> 200 \<longrightarrow> blobs w' = blobs w)
    \<and> (\<forall>s. csv_field s =
          (if list_ex (\<lambda>ch. ch = CHR '','' \<or> ch = CHR 0x22 \<or> ch = CHR 0x0D \<or> ch = CHR 0x0A) s
           then [CHR 0x22] @ concat (map (\<lambda>ch. if ch = CHR 0x22 then [ch, ch] else [ch]) s) @ [CHR 0x22]
           else s))"
proof -
  have name: "blob_name_of business_id agent_id timestamp =
      business_id @ ''/interactions/incidents/jira/request-'' @ business_id @ ''-''
        @ agent_id @ ''-'' @ timestamp @ ''.csv''"
    by (simp add: blob_name_of_def base_folder_of_def)
  have quoting: "csv_field s =
          (if list_ex (\<lambda>ch. ch = CHR '','' \<or> ch = CHR 0x22 \<or> ch = CHR 0x0D \<or> ch = CHR 0x0A) s
           then [CHR 0x22] @ concat (map (\<lambda>ch. if ch = CHR 0x22 then [ch, ch] else [ch]) s) @ [CHR 0x22]
           else s)" for s
    by (simp add: csv_field_def csv_special_def [abs_def])
  from upload_result [OF assms] show ?thesis
  proof (elim disjE conjE exE)
    fix c content
    assume "st = 200" "p = SuccessDict (base_folder_of business_id)"
      "getitem azure_auth ''container_name'' = Inr c"
      "csv_content (IssuesData rows) = Inr content"
      "blobs w (c, blob_name_of business_id agent_id timestamp) = None"
      "w' = w\<lparr> calls := calls w @ [BlobUpload c (blob_name_of business_id agent_id timestamp) content False],
               blobs := (blobs w)((c, blob_name_of business_id agent_id timestamp) \<mapsto> content) \<rparr>"
    then show ?thesis
      using quoting by (simp add: csv_content_rows name base_folder_of_def)
  next
    fix m
    assume "st = 500" "w' = w"
    then show ?thesis using quoting by simp
  next
    fix m c content
    assume "st = 500"
      "w' = w\<lparr> calls := calls w @ [BlobUpload c (blob_name_of business_id agent_id timestamp) content False] \<rparr>"
    then show ?thesis using quoting by simp
  qed
qed

theorem archive_path_and_content_witness:
  "upload_csv_to_azure (sample_env []) sample_azure_auth ''T'' (IssuesData [alice_data, reopened_data])
       ''123'' ''A'' empty_world
     = ((SuccessDict ''T/interactions/incidents/jira'', 200),
        \<lparr> blobs = [(''exports'', ''T/interactions/incidents/jira/request-T-A-123.csv'') \<mapsto> sample_csv],
          queue = [], stdout = [],
          calls = [BlobUpload ''exports'' ''T/interactions/incidents/jira/request-T-A-123.csv''
                     sample_csv False] \<rparr>)
   \<and> blobs (snd (upload_csv_to_azure (sample_env []) sample_azure_auth ''T''
         (IssuesData [alice_data, reopened_data]) ''123'' ''A'' empty_world))
       (''exports'', ''T/interactions/incidents/jira/request-T-A-123.csv'')
     = Some (''channel_id,title,original_summary,description,entries,resolved_by,resolved_timestamp''
              @ [CHR 0x0D, CHR 0x0A]
            @ ''jira,'' @ [CHR 0x22] @ ''Printer, broken'' @ [CHR 0x22] @ '',,,''
              @ [CHR 0x22] @ ''# Entry 1: a'' @ [CHR 0x0A] @ ''# Entry 2: b'' @ [CHR 0x0A] @ [CHR 0x22]
              @ '',Alice,1705314600'' @ [CHR 0x0D, CHR 0x0A]
            @ ''jira,Login fails,,since Monday,,,'' @ [CHR 0x0D, CHR 0x0A])"
proof -
  let ?w' = "empty_world\<lparr> calls := calls empty_world @ [BlobUpload ''exports'' sample_blob_name sample_csv False],
                blobs := (blobs empty_world)((''exports'', sample_blob_name) \<mapsto> sample_csv) \<rparr>"
  have run: "upload_csv_to_azure (sample_env []) sample_azure_auth ''T''
      (IssuesData [alice_data, reopened_data]) ''123'' ''A'' empty_world
      = ((SuccessDict ''T/interactions/incidents/jira'', 200), ?w')"
    by (simp add: sample_upload empty_world_def)
  have c: "getitem sample_azure_auth ''container_name'' = Inr ''exports''"
    by (simp add: getitem_def sample_azure_auth_def)
  from archive_path_and_content [OF run, THEN conjunct1] c
  have "blobs ?w' (''exports'', ''T/interactions/incidents/jira/request-T-A-123.csv'')
     = Some (''channel_id,title,original_summary,description,entries,resolved_by,resolved_timestamp''
              @ [CHR 0x0D, CHR 0x0A]
            @ concat (map (\<lambda>r.
               csv_field (channel_id r) @ '','' @ csv_field (title r) @ '','' @
               csv_field (original_summary r) @ '','' @ csv_field (description r) @ '','' @
               csv_field (entries r) @ '','' @ csv_field (resolved_by r) @ '','' @
               csv_field (resolved_timestamp r) @ [CHR 0x0D, CHR 0x0A]) [alice_data, reopened_data]))"
    by auto
  then have "blobs ?w' (''exports'', ''T/interactions/incidents/jira/request-T-A-123.csv'')
     = Some (''channel_id,title,original_summary,description,entries,resolved_by,resolved_timestamp''
              @ [CHR 0x0D, CHR 0x0A]
            @ ''jira,'' @ [CHR 0x22] @ ''Printer, broken'' @ [CHR 0x22] @ '',,,''
              @ [CHR 0x22] @ ''# Entry 1: a'' @ [CHR 0x0A] @ ''# Entry 2: b'' @ [CHR 0x0A] @ [CHR 0x22]
              @ '',Alice,1705314600'' @ [CHR 0x0D, CHR 0x0A]
            @ ''jira,Login fails,,since Monday,,,'' @ [CHR 0x0D, CHR 0x0A])"
    by (simp add: alice_data_def reopened_data_def csv_field_def csv_special_def)
  with run show ?thesis
    by (simp add: empty_world_def sample_blob_name_def)
qed

section \<open>No overwrite\<close>

text \<open>
  Claim C6. When the container already holds a blob at the computed path, the archiver
  returns an error dictionary with status 500, every blob is as it was (so is the queue),
  and the only request it can have made is one upload to that path with
  \<^verbatim>\<open>overwrite=False\<close>.
\<close>

theorem archiver_never_overwrites:
  assumes "getitem azure_auth ''container_name'' = Inr c"
    and "blobs w (c, blob_name_of business_id agent_id timestamp) = Some old"
    and "upload_csv_to_azure ev azure_auth business_id csv_data timestamp agent_id w = ((p, st), w')"
  shows "st = 500 \<and> (\<exists>m. p = ErrorDict m) \<and> blobs w' = blobs w \<and> queue w' = queue w \<and>
    blobs w' (c, blob_name_of business_id agent_id timestamp) = Some old \<and>
    (calls w' = calls w \<or>
     (\<exists>content. calls w' = calls w @
        [BlobUpload c (blob_name_of business_id agent_id timestamp) content False]))"
  using upload_result [OF assms(3)] assms(1,2)
  by (elim disjE conjE exE) auto

theorem archiver_never_overwrites_witness:
  "upload_csv_to_azure (sample_env []) sample_azure_auth ''T'' (IssuesData [alice_data, reopened_data])
       ''123'' ''A'' occupied_world
     = ((ErrorDict ''New file cannot be created in Azure'', 500),
        occupied_world \<lparr> calls := [BlobUpload ''exports'' sample_blob_name sample_csv False] \<rparr>)
   \<and> blobs (snd (upload_csv_to_azure (sample_env []) sample_azure_auth ''T''
         (IssuesData [alice_data, reopened_data]) ''123'' ''A'' occupied_world))
       (''exports'', sample_blob_name) = Some ''old''"
proof -
  let ?w' = "occupied_world \<lparr> calls := [BlobUpload ''exports'' sample_blob_name sample_csv False] \<rparr>"
  have run: "upload_csv_to_azure (sample_env []) sample_azure_auth ''T''
      (IssuesData [alice_data, reopened_data]) ''123'' ''A'' occupied_world
      = ((ErrorDict ''New file cannot be created in Azure'', 500), ?w')"
    by (simp add: sample_upload occupied_world_def empty_world_def)
  have c: "getitem sample_azure_auth ''container_name'' = Inr ''exports''"
    by (simp add: getitem_def sample_azure_auth_def)
  have held: "blobs occupied_world (''exports'', blob_name_of ''T'' ''A'' ''123'') = Some ''old''"
    by (simp add: occupied_world_def sample_blob_name)
  from archiver_never_overwrites [OF c held run]
  have "blobs ?w' (''exports'', sample_blob_name) = Some ''old''"
    by (simp add: sample_blob_name)
  with run show ?thesis by simp
qed

section \<open>The orchestrator\<close>

lemma process_fetched:
  assumes "fetch_jira_issues ev jira_auth total_days max_issues = (jp, 200)"
    and "upload_csv_to_azure ev azure_auth business_id jp timestamp agent_id
           (w\<lparr> stdout := stdout w @ [PrintHeader, PrintJson jp] \<rparr>) = ((up, ust), w2)"
  shows "process_issues ev jira_auth azure_auth queue_auth total_days max_issues business_id
           timestamp agent_id w
         = ((up, ust),
            if ust = 200
            then send_message_to_queue ev queue_auth
                   (queue_message business_id agent_id timestamp
                      (now_epoch ev - total_days * 86400) (now_epoch ev)) w2
            else w2)"
  using assms by (simp add: process_issues_def Let_def)

lemma send_keeps:
  "blobs (send_message_to_queue ev queue_auth msg w) = blobs w \<and>
   (\<exists>l. stdout (send_message_to_queue ev queue_auth msg w) = stdout w @ [l] \<and>
        (l = PrintMessageAdded msg \<or> (\<exists>e. l = PrintQueueError e)))"
  using send_result [of queue_auth ev msg w] by (elim disjE exE conjE) simp_all

lemma upload_keeps:
  assumes "upload_csv_to_azure ev azure_auth business_id csv_data timestamp agent_id w = ((p, st), w')"
  shows "queue w' = queue w \<and> stdout w' = stdout w \<and>
    (calls w' = calls w \<or> (\<exists>c n content. calls w' = calls w @ [BlobUpload c n content False]))"
  using upload_result [OF assms] by (elim disjE exE conjE) simp_all

text \<open>
  Claim C4. Let the extractor return \<open>(jp, code)\<close> and let the archiver, run on \<open>jp\<close>
  after the two lines the orchestrator prints, return \<open>(up, ust)\<close>. If \<open>code\<close> is not
  200 the run returns \<open>(jp, code)\<close> and has only printed: no blob, no message, no request.
  If \<open>code\<close> is 200 and \<open>ust\<close> is not, the run returns \<open>(up, ust)\<close> and ends in the
  archiver's world: nothing was sent or requested of the queue and the notifier printed
  nothing. If both are 200 the run returns \<open>(up, 200)\<close>, \<open>up\<close> being the archiver's
  success dictionary, and ends in the world the notifier leaves when given the queue
  message once; the notifier prints exactly one line.
\<close>

theorem orchestrator_short_circuit:
  assumes "fetch_jira_issues ev jira_auth total_days max_issues = (jp, code)"
    and "upload_csv_to_azure ev azure_auth business_id jp timestamp agent_id
           (w\<lparr> stdout := stdout w @ [PrintHeader, PrintJson jp] \<rparr>) = ((up, ust), w2)"
    and "process_issues ev jira_auth azure_auth queue_auth total_days max_issues business_id
           timestamp agent_id w = (res, w')"
  shows "(code \<noteq> 200 \<longrightarrow>
            res = (jp, code) \<and> blobs w' = blobs w \<and> queue w' = queue w \<and> calls w' = calls w \<and>
            stdout w' = stdout w @ [PrintHeader, PrintJson jp]) \<and>
         (code = 200 \<and> ust \<noteq> 200 \<longrightarrow>
            res = (up, ust) \<and> w' = w2 \<and> queue w' = queue w \<and>
            stdout w' = stdout w @ [PrintHeader, PrintJson jp] \<and>
            (calls w' = calls w \<or> (\<exists>c n content. calls w' = calls w @ [BlobUpload c n content False]))) \<and>
         (code = 200 \<and> ust = 200 \<longrightarrow>
            res = (up, 200) \<and> up = SuccessDict (base_folder_of business_id) \<and>
            w' = send_message_to_queue ev queue_auth
                   (queue_message business_id agent_id timestamp
                      (now_epoch ev - total_days * 86400) (now_epoch ev)) w2 \<and>
            (\<exists>l. stdout w' = stdout w2 @ [l] \<and>
               (l = PrintMessageAdded (queue_message business_id agent_id timestamp
                      (now_epoch ev - total_days * 86400) (now_epoch ev))
                \<or> (\<exists>e. l = PrintQueueError e))))"
proof -
  let ?msg = "queue_message business_id agent_id timestamp
                (now_epoch ev - total_days * 86400) (now_epoch ev)"
  have failed: "res = (jp, code) \<and> blobs w' = blobs w \<and> queue w' = queue w \<and> calls w' = calls w \<and>
        stdout w' = stdout w @ [PrintHeader, PrintJson jp]"
    if "code \<noteq> 200"
    using process_fetch_failed [OF assms(1) that, of azure_auth queue_auth business_id timestamp
        agent_id w] assms(3)
    by auto
  have not_archived: "res = (up, ust) \<and> w' = w2 \<and> queue w' = queue w \<and>
        stdout w' = stdout w @ [PrintHeader, PrintJson jp] \<and>
        (calls w' = calls w \<or> (\<exists>c n content. calls w' = calls w @ [BlobUpload c n content False]))"
    if "code = 200 \<and> ust \<noteq> 200"
  proof -
    from that process_fetched [OF _ assms(2), of jira_auth total_days max_issues queue_auth] assms(1,3)
    have "res = (up, ust)" "w' = w2" by simp_all
    with upload_keeps [OF assms(2)] show ?thesis by simp
  qed
  have archived: "res = (up, 200) \<and> up = SuccessDict (base_folder_of business_id) \<and>
        w' = send_message_to_queue ev queue_auth ?msg w2 \<and>
        (\<exists>l. stdout w' = stdout w2 @ [l] \<and> (l = PrintMessageAdded ?msg \<or> (\<exists>e. l = PrintQueueError e)))"
    if "code = 200 \<and> ust = 200"
  proof -
    from that process_fetched [OF _ assms(2), of jira_auth total_days max_issues queue_auth] assms(1,3)
    have r: "res = (up, 200)" and w: "w' = send_message_to_queue ev queue_auth ?msg w2"
      by simp_all
    from upload_result [OF assms(2)] that have u: "up = SuccessDict (base_folder_of business_id)"
      by auto
    from r u w send_keeps [of ev queue_auth ?msg w2] show ?thesis by simp
  qed
  from failed not_archived archived show ?thesis by blast
qed

lemma sample_send:
  "send_message_to_queue (sample_env ts) sample_queue_auth msg w =
     w\<lparr> calls := calls w @ [QueueSend ''ready'' (request_id msg @ '' '' @ start_date msg @ '' '' @ end_date msg)],
        queue := queue w @ [(''ready'', request_id msg @ '' '' @ start_date msg @ '' '' @ end_date msg)],
        stdout := stdout w @ [PrintMessageAdded msg] \<rparr>"
  by (simp add: send_message_to_queue_def send_try_def send_message_def Let_def getitem_def
      sample_queue_auth_def sample_env_def)

lemma sample_now: "now_epoch (sample_env ts) = 1705400000"
  by (simp add: sample_env_def)

lemma sample_message:
  "queue_message ''T'' ''A'' ''123'' 1702808000 1705400000 =
     \<lparr> interaction_types = [''incidents''], channels = [''jira''], org_id = ''T'',
       request_id = ''A-123'', request_mode = [''historical''],
       requested_features = [''topic-classification''],
       start_date = ''1702808000'', end_date = ''1705400000'' \<rparr>"
  by (simp add: queue_message_def str_int_def str_nat.simps digit_char_def)

theorem orchestrator_short_circuit_witness:
  "process_issues (sample_env []) sample_jira_auth sample_azure_auth sample_queue_auth 30 50
      ''T'' ''123'' ''A'' empty_world
    = ((ErrorDict ''No tickets found'', 404),
       empty_world \<lparr> stdout := [PrintHeader, PrintJson (ErrorDict ''No tickets found'')] \<rparr>)
   \<and> process_issues (sample_env [alice_ticket, reopened_ticket]) sample_jira_auth sample_azure_auth
      sample_queue_auth 30 50 ''T'' ''123'' ''A'' occupied_world
    = ((ErrorDict ''New file cannot be created in Azure'', 500),
       occupied_world \<lparr> stdout := [PrintHeader, PrintJson (IssuesData [alice_data, reopened_data])],
                        calls := [BlobUpload ''exports'' sample_blob_name sample_csv False] \<rparr>)
   \<and> process_issues (sample_env [alice_ticket, reopened_ticket]) sample_jira_auth sample_azure_auth
      sample_queue_auth 30 50 ''T'' ''123'' ''A'' empty_world
    = ((SuccessDict ''T/interactions/incidents/jira'', 200),
       \<lparr> blobs = [(''exports'', sample_blob_name) \<mapsto> sample_csv],
         queue = [(''ready'', ''A-123 1702808000 1705400000'')],
         stdout = [PrintHeader, PrintJson (IssuesData [alice_data, reopened_data]),
                   PrintMessageAdded
                     \<lparr> interaction_types = [''incidents''], channels = [''jira''], org_id = ''T'',
                       request_id = ''A-123'', request_mode = [''historical''],
                       requested_features = [''topic-classification''],
                       start_date = ''1702808000'', end_date = ''1705400000'' \<rparr>],
         calls = [BlobUpload ''exports'' sample_blob_name sample_csv False,
                  QueueSend ''ready'' ''A-123 1702808000 1705400000''] \<rparr>)"
proof -
  let ?ts = "[alice_ticket, reopened_ticket]"
  let ?jp = "IssuesData [alice_data, reopened_data]"
  have none: "fetch_jira_issues (sample_env []) sample_jira_auth 30 50
      = (ErrorDict ''No tickets found'', 404)"
    by (simp add: fetch_jira_issues_def fetch_try_def sample_search bindE_def)
  obtain up0 ust0 w0 where u0: "upload_csv_to_azure (sample_env []) sample_azure_auth ''T''
      (ErrorDict ''No tickets found'') ''123'' ''A''
      (empty_world\<lparr> stdout := stdout empty_world @ [PrintHeader, PrintJson (ErrorDict ''No tickets found'')] \<rparr>)
      = ((up0, ust0), w0)"
    by (metis surj_pair)
  obtain r0 v0 where p0: "process_issues (sample_env []) sample_jira_auth sample_azure_auth
      sample_queue_auth 30 50 ''T'' ''123'' ''A'' empty_world = (r0, v0)"
    by (metis surj_pair)
  from orchestrator_short_circuit [OF none u0 p0]
  have "r0 = (ErrorDict ''No tickets found'', 404)"
    and "blobs v0 = blobs empty_world" and "queue v0 = queue empty_world"
    and "calls v0 = calls empty_world"
    and "stdout v0 = stdout empty_world @ [PrintHeader, PrintJson (ErrorDict ''No tickets found'')]"
    by simp_all
  then have first: "(r0, v0) = ((ErrorDict ''No tickets found'', 404),
       empty_world \<lparr> stdout := [PrintHeader, PrintJson (ErrorDict ''No tickets found'')] \<rparr>)"
    by (cases v0) (simp add: empty_world_def)
  have u1: "upload_csv_to_azure (sample_env ?ts) sample_azure_auth ''T'' ?jp ''123'' ''A''
      (occupied_world\<lparr> stdout := stdout occupied_world @ [PrintHeader, PrintJson ?jp] \<rparr>)
      = ((ErrorDict ''New file cannot be created in Azure'', 500),
         occupied_world \<lparr> stdout := [PrintHeader, PrintJson ?jp],
                          calls := [BlobUpload ''exports'' sample_blob_name sample_csv False] \<rparr>)"
    by (simp add: sample_upload occupied_world_def empty_world_def)
  obtain r1 v1 where p1: "process_issues (sample_env ?ts) sample_jira_auth sample_azure_auth
      sample_queue_auth 30 50 ''T'' ''123'' ''A'' occupied_world = (r1, v1)"
    by (metis surj_pair)
  from orchestrator_short_circuit [OF sample_fetch_data u1 p1]
  have second: "(r1, v1) = ((ErrorDict ''New file cannot be created in Azure'', 500),
         occupied_world \<lparr> stdout := [PrintHeader, PrintJson ?jp],
                          calls := [BlobUpload ''exports'' sample_blob_name sample_csv False] \<rparr>)"
    by simp
  have u2: "upload_csv_to_azure (sample_env ?ts) sample_azure_auth ''T'' ?jp ''123'' ''A''
      (empty_world\<lparr> stdout := stdout empty_world @ [PrintHeader, PrintJson ?jp] \<rparr>)
      = ((SuccessDict ''T/interactions/incidents/jira'', 200),
         \<lparr> blobs = [(''exports'', sample_blob_name) \<mapsto> sample_csv], queue = [],
           stdout = [PrintHeader, PrintJson ?jp],
           calls = [BlobUpload ''exports'' sample_blob_name sample_csv False] \<rparr>)"
    by (simp add: sample_upload empty_world_def)
  obtain r2 v2 where p2: "process_issues (sample_env ?ts) sample_jira_auth sample_azure_auth
      sample_queue_auth 30 50 ''T'' ''123'' ''A'' empty_world = (r2, v2)"
    by (metis surj_pair)
  from orchestrator_short_circuit [OF sample_fetch_data u2 p2]
  have third: "(r2, v2) = ((SuccessDict ''T/interactions/incidents/jira'', 200),
       \<lparr> blobs = [(''exports'', sample_blob_name) \<mapsto> sample_csv],
         queue = [(''ready'', ''A-123 1702808000 1705400000'')],
         stdout = [PrintHeader, PrintJson ?jp,
                   PrintMessageAdded
                     \<lparr> interaction_types = [''incidents''], channels = [''jira''], org_id = ''T'',
                       request_id = ''A-123'', request_mode = [''historical''],
                       requested_features = [''topic-classification''],
                       start_date = ''1702808000'', end_date = ''1705400000'' \<rparr>],
         calls = [BlobUpload ''exports'' sample_blob_name sample_csv False,
                  QueueSend ''ready'' ''A-123 1702808000 1705400000''] \<rparr>)"
    by (simp add: sample_send sample_now sample_message base_folder_of_def)
  from first second third p0 p1 p2 show ?thesis by simp
qed

section \<open>The notifier cannot fail the run\<close>

lemma issue_record_queue_frame:
  "issue_record (ev\<lparr> queue_transport := q \<rparr>) i = issue_record ev i"
  by (simp add: issue_record_def convert_timestamp_def cong: if_cong)

lemma collect_issues_queue_frame:
  "collect_issues (ev\<lparr> queue_transport := q \<rparr>) ts acc = collect_issues ev ts acc"
  by (induction ts arbitrary: acc) (simp_all add: issue_record_queue_frame)

lemma fetch_queue_frame:
  "fetch_jira_issues (ev\<lparr> queue_transport := q \<rparr>) jira_auth total_days max_issues
     = fetch_jira_issues ev jira_auth total_days max_issues"
  by (simp add: fetch_jira_issues_def fetch_try_def search_tickets_def collect_issues_queue_frame
      cong: if_cong option.case_cong)

lemma upload_queue_frame:
  "upload_csv_to_azure (ev\<lparr> queue_transport := q \<rparr>) azure_auth business_id csv_data timestamp agent_id w
     = upload_csv_to_azure ev azure_auth business_id csv_data timestamp agent_id w"
  by (simp add: upload_csv_to_azure_def upload_try_def upload_blob_def
      cong: if_cong option.case_cong sum.case_cong)

lemma send_try_failed_keeps:
  assumes "send_try ev queue_auth msg w = (Inl e, w3)"
  shows "queue w3 = queue w \<and> blobs w3 = blobs w \<and> stdout w3 = stdout w"
  using assms
  by (auto simp: send_try_def send_message_def Let_def
      split: sum.splits option.splits prod.splits)

text \<open>
  Claim C5. After a successful extraction and a successful archive, whatever the notifier
  does, the run returns the archiver's success dictionary with status 200. When the
  notifier's \<^verbatim>\<open>try\<close> body raises \<open>e\<close>, the exception goes no further: the run ends
  in the world the body left, with one more printed line, the error \<open>e\<close>; the queue holds
  no new message, and the blobs and the lines printed before are as the archiver left them.
\<close>

theorem notifier_failure_swallowed:
  assumes "fetch_jira_issues ev jira_auth total_days max_issues = (jp, 200)"
    and "upload_csv_to_azure ev azure_auth business_id jp timestamp agent_id
           (w\<lparr> stdout := stdout w @ [PrintHeader, PrintJson jp] \<rparr>) = ((up, 200), w2)"
    and "send_try ev queue_auth
           (queue_message business_id agent_id timestamp
              (now_epoch ev - total_days * 86400) (now_epoch ev)) w2 = (outcome, w3)"
  shows "fst (process_issues ev jira_auth azure_auth queue_auth total_days max_issues business_id
                timestamp agent_id w) = (up, 200) \<and>
    up = SuccessDict (base_folder_of business_id) \<and>
    (case outcome of
       Inl e \<Rightarrow>
         snd (process_issues ev jira_auth azure_auth queue_auth total_days max_issues business_id
                timestamp agent_id w) = w3\<lparr> stdout := stdout w3 @ [PrintQueueError e] \<rparr> \<and>
         queue w3 = queue w \<and> blobs w3 = blobs w2 \<and> stdout w3 = stdout w2
     | Inr u \<Rightarrow>
         snd (process_issues ev jira_auth azure_auth queue_auth total_days max_issues business_id
                timestamp agent_id w) = w3)"
proof -
  let ?msg = "queue_message business_id agent_id timestamp
                (now_epoch ev - total_days * 86400) (now_epoch ev)"
  from process_fetched [OF assms(1,2), of queue_auth]
  have p: "process_issues ev jira_auth azure_auth queue_auth total_days max_issues business_id
             timestamp agent_id w = ((up, 200), send_message_to_queue ev queue_auth ?msg w2)"
    by simp
  from upload_result [OF assms(2)] have u: "up = SuccessDict (base_folder_of business_id)"
    by auto
  from upload_keeps [OF assms(2)] have q: "queue w2 = queue w" by simp
  show ?thesis
  proof (cases outcome)
    case (Inl e)
    with assms(3) send_try_failed_keeps [of ev queue_auth ?msg w2 e w3] p u q show ?thesis
      by (simp add: send_message_to_queue_def)
  next
    case (Inr v)
    with assms(3) p u show ?thesis
      by (simp add: send_message_to_queue_def)
  qed
qed

lemma down_send_try:
  "send_try (queue_down_env ts) sample_queue_auth msg w =
     (Inl (SdkError ''timed out''),
      w\<lparr> calls := calls w @ [QueueSend ''ready'' (request_id msg @ '' '' @ start_date msg @ '' '' @ end_date msg)] \<rparr>)"
  by (simp add: send_try_def send_message_def Let_def getitem_def sample_queue_auth_def
      queue_down_env_def sample_env_def)

lemma down_now: "now_epoch (queue_down_env ts) = 1705400000"
  by (simp add: queue_down_env_def sample_env_def)

theorem notifier_failure_swallowed_witness:
  "process_issues (queue_down_env [alice_ticket, reopened_ticket]) sample_jira_auth
      sample_azure_auth sample_queue_auth 30 50 ''T'' ''123'' ''A'' empty_world
    = ((SuccessDict ''T/interactions/incidents/jira'', 200),
       \<lparr> blobs = [(''exports'', sample_blob_name) \<mapsto> sample_csv],
         queue = [],
         stdout = [PrintHeader, PrintJson (IssuesData [alice_data, reopened_data]),
                   PrintQueueError (SdkError ''timed out'')],
         calls = [BlobUpload ''exports'' sample_blob_name sample_csv False,
                  QueueSend ''ready'' ''A-123 1702808000 1705400000''] \<rparr>)"
proof -
  let ?ts = "[alice_ticket, reopened_ticket]"
  let ?jp = "IssuesData [alice_data, reopened_data]"
  let ?ev = "queue_down_env ?ts"
  let ?w2 = "\<lparr> blobs = [(''exports'', sample_blob_name) \<mapsto> sample_csv], queue = [],
           stdout = [PrintHeader, PrintJson ?jp],
           calls = [BlobUpload ''exports'' sample_blob_name sample_csv False] \<rparr>"
  let ?w3 = "\<lparr> blobs = [(''exports'', sample_blob_name) \<mapsto> sample_csv], queue = [],
           stdout = [PrintHeader, PrintJson ?jp],
           calls = [BlobUpload ''exports'' sample_blob_name sample_csv False,
                    QueueSend ''ready'' ''A-123 1702808000 1705400000''] \<rparr>"
  have f: "fetch_jira_issues ?ev sample_jira_auth 30 50 = (?jp, 200)"
    by (simp add: queue_down_env_def fetch_queue_frame sample_fetch_data)
  have u: "upload_csv_to_azure ?ev sample_azure_auth ''T'' ?jp ''123'' ''A''
      (empty_world\<lparr> stdout := stdout empty_world @ [PrintHeader, PrintJson ?jp] \<rparr>)
      = ((SuccessDict ''T/interactions/incidents/jira'', 200), ?w2)"
    by (simp add: queue_down_env_def upload_queue_frame sample_upload empty_world_def)
  have n: "send_try ?ev sample_queue_auth
      (queue_message ''T'' ''A'' ''123'' (now_epoch ?ev - 30 * 86400) (now_epoch ?ev)) ?w2
      = (Inl (SdkError ''timed out''), ?w3)"
    by (simp add: down_send_try down_now sample_message)
  obtain r v where p: "process_issues ?ev sample_jira_auth sample_azure_auth sample_queue_auth
      30 50 ''T'' ''123'' ''A'' empty_world = (r, v)"
    by (metis surj_pair)
  from notifier_failure_swallowed [OF f u n] p
  have "r = (SuccessDict ''T/interactions/incidents/jira'', 200)"
    and "v = ?w3\<lparr> stdout := stdout ?w3 @ [PrintQueueError (SdkError ''timed out'')] \<rparr>"
    by simp_all
  with p show ?thesis by simp
qed

section \<open>The queue message\<close>

lemma send_healthy:
  assumes "getitem queue_auth ''account_url'' = Inr qurl"
    and "getitem queue_auth ''account_name'' = Inr qacc"
    and "getitem queue_auth ''account_key'' = Inr qkey"
    and "getitem queue_auth ''queue_name'' = Inr qn"
    and "queue_client ev qurl qacc qkey qn = None"
    and "queue_transport ev qn (json_dumps ev msg) = None"
  shows "send_message_to_queue ev queue_auth msg w =
     w\<lparr> calls := calls w @ [QueueSend qn (json_dumps ev msg)],
        queue := queue w @ [(qn, json_dumps ev msg)],
        stdout := stdout w @ [PrintMessageAdded msg] \<rparr>"
  using assms
  by (simp add: send_message_to_queue_def send_try_def send_message_def Let_def)

lemma send_effect:
  "(\<exists>qn. queue (send_message_to_queue ev queue_auth msg w) = queue w @ [(qn, json_dumps ev msg)] \<and>
          stdout (send_message_to_queue ev queue_auth msg w) = stdout w @ [PrintMessageAdded msg] \<and>
          calls (send_message_to_queue ev queue_auth msg w) = calls w @ [QueueSend qn (json_dumps ev msg)])
   \<or> (\<exists>e. queue (send_message_to_queue ev queue_auth msg w) = queue w \<and>
          stdout (send_message_to_queue ev queue_auth msg w) = stdout w @ [PrintQueueError e] \<and>
          (calls (send_message_to_queue ev queue_auth msg w) = calls w \<or>
           (\<exists>qn. calls (send_message_to_queue ev queue_auth msg w)
                  = calls w @ [QueueSend qn (json_dumps ev msg)])))"
  using send_result [of queue_auth ev msg w]
  by (elim disjE exE conjE) auto

lemma upload_effect:
  assumes "upload_csv_to_azure ev azure_auth business_id csv_data timestamp agent_id w = ((p, st), w')"
  shows "queue w' = queue w \<and> stdout w' = stdout w \<and> (st = 200 \<or> st = 500) \<and>
    (st = 200 \<longrightarrow> (\<exists>c n content. calls w' = calls w @ [BlobUpload c n content False])) \<and>
    (calls w' = calls w \<or> (\<exists>c n content. calls w' = calls w @ [BlobUpload c n content False]))"
  using upload_result [OF assms] by (elim disjE exE conjE) simp_all

text \<open>
  Claim C7. Let \<open>msg\<close> be the message of lines 187-196: the fixed interaction types,
  channels, mode and features, the tenant as \<open>org_id\<close>, the request id
  \<open>{agent_id}-{timestamp}\<close>, and as \<open>end_date\<close> and \<open>start_date\<close> the decimal strings of
  the orchestrator's own clock reading in epoch seconds and of that reading less
  \<open>total_days * 86400\<close>; neither depends on the date the extractor queries with.
  A run that does not return 200 leaves the queue as it was, requests nothing of it and
  prints no line of the notifier. A run that returns 200 has given \<open>msg\<close> to the notifier
  exactly once: either \<open>msg\<close>, serialised, is the one new message of the queue, or the
  notifier printed one error and the queue is as it was. When the queue credentials are
  complete and the queue service raises nothing, it is the former.
\<close>

theorem queue_message_on_archive_success:
  assumes "fetch_jira_issues ev jira_auth total_days max_issues = (jp, code)"
    and "msg = queue_message business_id agent_id timestamp
                 (now_epoch ev - total_days * 86400) (now_epoch ev)"
    and "process_issues ev jira_auth azure_auth queue_auth total_days max_issues business_id
           timestamp agent_id w = ((p, st), w')"
  shows "interaction_types msg = [''incidents''] \<and> channels msg = [''jira''] \<and>
    org_id msg = business_id \<and> request_id msg = agent_id @ ''-'' @ timestamp \<and>
    request_mode msg = [''historical''] \<and> requested_features msg = [''topic-classification''] \<and>
    end_date msg = str_int (now_epoch ev) \<and>
    start_date msg = str_int (now_epoch ev - total_days * 86400) \<and>
    (st \<noteq> 200 \<longrightarrow>
       queue w' = queue w \<and> stdout w' = stdout w @ [PrintHeader, PrintJson jp] \<and>
       (calls w' = calls w \<or> (\<exists>c n content. calls w' = calls w @ [BlobUpload c n content False]))) \<and>
    (st = 200 \<longrightarrow>
       (\<exists>c n content.
          (\<exists>qn. queue w' = queue w @ [(qn, json_dumps ev msg)] \<and>
             stdout w' = stdout w @ [PrintHeader, PrintJson jp, PrintMessageAdded msg] \<and>
             calls w' = calls w @ [BlobUpload c n content False, QueueSend qn (json_dumps ev msg)])
          \<or> (\<exists>e. queue w' = queue w \<and>
             stdout w' = stdout w @ [PrintHeader, PrintJson jp, PrintQueueError e] \<and>
             (calls w' = calls w @ [BlobUpload c n content False] \<or>
              (\<exists>qn. calls w' = calls w @ [BlobUpload c n content False,
                                          QueueSend qn (json_dumps ev msg)]))))) \<and>
    (st = 200 \<and> getitem queue_auth ''account_url'' = Inr qurl \<and>
     getitem queue_auth ''account_name'' = Inr qacc \<and> getitem queue_auth ''account_key'' = Inr qkey \<and>
     getitem queue_auth ''queue_name'' = Inr qn \<and> queue_client ev qurl qacc qkey qn = None \<and>
     queue_transport ev qn (json_dumps ev msg) = None \<longrightarrow>
       queue w' = queue w @ [(qn, json_dumps ev msg)] \<and>
       stdout w' = stdout w @ [PrintHeader, PrintJson jp, PrintMessageAdded msg])"
proof -
  let ?w1 = "w\<lparr> stdout := stdout w @ [PrintHeader, PrintJson jp] \<rparr>"
  have fields: "interaction_types msg = [''incidents''] \<and> channels msg = [''jira''] \<and>
    org_id msg = business_id \<and> request_id msg = agent_id @ ''-'' @ timestamp \<and>
    request_mode msg = [''historical''] \<and> requested_features msg = [''topic-classification''] \<and>
    end_date msg = str_int (now_epoch ev) \<and>
    start_date msg = str_int (now_epoch ev - total_days * 86400)"
    by (simp add: assms(2) queue_message_def)
  obtain up ust w2 where u: "upload_csv_to_azure ev azure_auth business_id jp timestamp agent_id ?w1
      = ((up, ust), w2)"
    by (metis surj_pair)
  note ue = upload_effect [OF u]
  have run: "st = (if code = 200 then ust else code) \<and>
      w' = (if code = 200 then (if ust = 200 then send_message_to_queue ev queue_auth msg w2 else w2)
            else ?w1)"
  proof (cases "code = 200")
    case True
    with process_fetched [OF _ u, of jira_auth total_days max_issues queue_auth] assms
    show ?thesis by simp
  next
    case False
    with process_fetch_failed [OF assms(1) False, of azure_auth queue_auth business_id timestamp
        agent_id w] assms(3)
    show ?thesis by simp
  qed
  have not_sent: "queue w' = queue w \<and> stdout w' = stdout w @ [PrintHeader, PrintJson jp] \<and>
       (calls w' = calls w \<or> (\<exists>c n content. calls w' = calls w @ [BlobUpload c n content False]))"
    if "st \<noteq> 200"
    using that run ue by (auto split: if_splits)
  have sent: "\<exists>c n content.
          (\<exists>qn. queue w' = queue w @ [(qn, json_dumps ev msg)] \<and>
             stdout w' = stdout w @ [PrintHeader, PrintJson jp, PrintMessageAdded msg] \<and>
             calls w' = calls w @ [BlobUpload c n content False, QueueSend qn (json_dumps ev msg)])
          \<or> (\<exists>e. queue w' = queue w \<and>
             stdout w' = stdout w @ [PrintHeader, PrintJson jp, PrintQueueError e] \<and>
             (calls w' = calls w @ [BlobUpload c n content False] \<or>
              (\<exists>qn. calls w' = calls w @ [BlobUpload c n content False,
                                          QueueSend qn (json_dumps ev msg)])))"
    if "st = 200"
  proof -
    from that run have c: "code = 200" "ust = 200"
      and w': "w' = send_message_to_queue ev queue_auth msg w2"
      by (auto split: if_splits)
    from ue c obtain c0 n content where
      calls2: "calls w2 = calls w @ [BlobUpload c0 n content False]"
      and q2: "queue w2 = queue w" and s2: "stdout w2 = stdout w @ [PrintHeader, PrintJson jp]"
      by auto
    from send_effect [of ev queue_auth msg w2] show ?thesis
      unfolding w' [symmetric] calls2 q2 s2 by (elim disjE exE conjE) auto
  qed
  have healthy: "queue w' = queue w @ [(qn, json_dumps ev msg)] \<and>
       stdout w' = stdout w @ [PrintHeader, PrintJson jp, PrintMessageAdded msg]"
    if "st = 200 \<and> getitem queue_auth ''account_url'' = Inr qurl \<and>
     getitem queue_auth ''account_name'' = Inr qacc \<and> getitem queue_auth ''account_key'' = Inr qkey \<and>
     getitem queue_auth ''queue_name'' = Inr qn \<and> queue_client ev qurl qacc qkey qn = None \<and>
     queue_transport ev qn (json_dumps ev msg) = None"
  proof -
    from that run have w': "w' = send_message_to_queue ev queue_auth msg w2"
      by (auto split: if_splits)
    from that have "send_message_to_queue ev queue_auth msg w2 =
       w2\<lparr> calls := calls w2 @ [QueueSend qn (json_dumps ev msg)],
           queue := queue w2 @ [(qn, json_dumps ev msg)],
           stdout := stdout w2 @ [PrintMessageAdded msg] \<rparr>"
      using send_healthy [of queue_auth qurl qacc qkey qn ev msg w2] by blast
    with w' ue show ?thesis by simp
  qed
  from fields not_sent sent healthy show ?thesis by blast
qed

lemma sample_process:
  "process_issues (sample_env [alice_ticket, reopened_ticket]) sample_jira_auth sample_azure_auth
      sample_queue_auth 30 50 ''T'' ''123'' ''A'' empty_world
    = ((SuccessDict ''T/interactions/incidents/jira'', 200),
       \<lparr> blobs = [(''exports'', sample_blob_name) \<mapsto> sample_csv],
         queue = [(''ready'', ''A-123 1702808000 1705400000'')],
         stdout = [PrintHeader, PrintJson (IssuesData [alice_data, reopened_data]),
                   PrintMessageAdded (queue_message ''T'' ''A'' ''123'' 1702808000 1705400000)],
         calls = [BlobUpload ''exports'' sample_blob_name sample_csv False,
                  QueueSend ''ready'' ''A-123 1702808000 1705400000''] \<rparr>)"
  by (simp add: process_issues_def Let_def sample_fetch_data sample_upload sample_send sample_now
      empty_world_def)
     (simp add: sample_message)

theorem queue_message_on_archive_success_witness:
  "snd (fst (process_issues (sample_env [alice_ticket, reopened_ticket]) sample_jira_auth
        sample_azure_auth sample_queue_auth 30 50 ''T'' ''123'' ''A'' empty_world)) = 200
   \<and> queue (snd (process_issues (sample_env [alice_ticket, reopened_ticket]) sample_jira_auth
        sample_azure_auth sample_queue_auth 30 50 ''T'' ''123'' ''A'' empty_world))
       = [(''ready'', ''A-123 1702808000 1705400000'')]
   \<and> request_id (queue_message ''T'' ''A'' ''123'' 1702808000 1705400000) = ''A-123''
   \<and> start_date (queue_message ''T'' ''A'' ''123'' 1702808000 1705400000) = ''1702808000''
   \<and> end_date (queue_message ''T'' ''A'' ''123'' 1702808000 1705400000) = ''1705400000''
   \<and> snd (fst (process_issues (sample_env []) sample_jira_auth sample_azure_auth sample_queue_auth
        30 50 ''T'' ''123'' ''A'' empty_world)) = 404
   \<and> queue (snd (process_issues (sample_env []) sample_jira_auth sample_azure_auth sample_queue_auth
        30 50 ''T'' ''123'' ''A'' empty_world)) = []"
proof -
  let ?ts = "[alice_ticket, reopened_ticket]"
  let ?ev = "sample_env ?ts"
  let ?msg = "queue_message ''T'' ''A'' ''123'' (now_epoch ?ev - 30 * 86400) (now_epoch ?ev)"
  obtain p w' where run: "process_issues ?ev sample_jira_auth sample_azure_auth sample_queue_auth
      30 50 ''T'' ''123'' ''A'' empty_world = ((p, 200), w')"
    using sample_process by blast
  have healthy: "(200::int) = 200 \<and>
     getitem sample_queue_auth ''account_url'' = Inr ''https://queue.example'' \<and>
     getitem sample_queue_auth ''account_name'' = Inr ''store'' \<and>
     getitem sample_queue_auth ''account_key'' = Inr ''key'' \<and>
     getitem sample_queue_auth ''queue_name'' = Inr ''ready'' \<and>
     queue_client ?ev ''https://queue.example'' ''store'' ''key'' ''ready'' = None \<and>
     queue_transport ?ev ''ready'' (json_dumps ?ev ?msg) = None"
    by (simp add: getitem_def sample_queue_auth_def sample_env_def)
  note T = queue_message_on_archive_success [OF sample_fetch_data refl run]
  from T [THEN conjunct2, THEN conjunct2, THEN conjunct2, THEN conjunct2, THEN conjunct2,
      THEN conjunct2, THEN conjunct2, THEN conjunct2, THEN conjunct2, THEN conjunct2,
      THEN mp, OF healthy]
  have sent: "queue w' = [(''ready'', ''A-123 1702808000 1705400000'')]"
    by (simp add: sample_now sample_message empty_world_def) (simp add: sample_env_def)
  from T have fields: "request_id ?msg = ''A-123'' \<and>
      start_date ?msg = str_int (now_epoch ?ev - 30 * 86400) \<and> end_date ?msg = str_int (now_epoch ?ev)"
    by simp
  then have dates: "request_id (queue_message ''T'' ''A'' ''123'' 1702808000 1705400000) = ''A-123'' \<and>
      start_date (queue_message ''T'' ''A'' ''123'' 1702808000 1705400000) = ''1702808000'' \<and>
      end_date (queue_message ''T'' ''A'' ''123'' 1702808000 1705400000) = ''1705400000''"
    by (simp add: sample_now str_int_def str_nat.simps digit_char_def)
  have none: "fetch_jira_issues (sample_env []) sample_jira_auth 30 50
      = (ErrorDict ''No tickets found'', 404)"
    by (simp add: fetch_jira_issues_def fetch_try_def sample_search bindE_def)
  obtain p0 w0 where run0: "process_issues (sample_env []) sample_jira_auth sample_azure_auth
      sample_queue_auth 30 50 ''T'' ''123'' ''A'' empty_world = ((p0, 404), w0)"
    using process_fetch_failed [OF none, of sample_azure_auth sample_queue_auth "''T''" "''123''"
        "''A''" empty_world] by simp
  from queue_message_on_archive_success [OF none refl run0]
  have unsent: "queue w0 = []"
    by (simp add: empty_world_def)
  from run sent dates run0 unsent show ?thesis by simp
qed

end
